theory Spec2Isabelle
  imports Complex_Main "HOL-Library.AList"
begin

section \<open>JavaScript values\<close>

text \<open>
  server.js handles untyped values: upstream events decoded from JSON, query parameters,
  and its own quote objects. A JavaScript number is a finite value, an infinity or NaN.
  Finite doubles are rationals, and the program only tests, compares and stores them, so
  the finite case carries a rational; \<open>-0\<close> and \<open>+0\<close> are one value (both are falsy, finite
  and equal under \<open>===\<close>). A string is a list of code units.
\<close>

datatype jsnum = Fin rat | PInf | NInf | NaN

datatype jsval =
    JUndefined
  | JNull
  | JBool bool
  | JNum jsnum
  | JStr string
  | JArr "jsval list"
  | JObj "(string \<times> jsval) list"

datatype js_error = TypeError

text \<open>
  The two conversions whose result depends on the binary64 representation, and the
  system clock, are inputs of the model: \<open>StringToNumber\<close> and \<open>NumberToString\<close> are the
  abstract operations of ECMAScript under these names, and \<open>clock k\<close> is what the
  \<open>k\<close>-th call of \<open>Date.now()\<close> returns. The theorems below are stated for every platform;
  the examples run on one.
\<close>

record platform =
  StringToNumber :: "string \<Rightarrow> jsnum"
  NumberToString :: "jsnum \<Rightarrow> string"
  clock :: "nat \<Rightarrow> int"

fun isFinite :: "jsval \<Rightarrow> bool" where
  "isFinite (JNum (Fin x)) = True"
| "isFinite v = False"

fun truthy :: "jsval \<Rightarrow> bool" where
  "truthy JUndefined = False"
| "truthy JNull = False"
| "truthy (JBool b) = b"
| "truthy (JNum (Fin x)) = (x \<noteq> 0)"
| "truthy (JNum NaN) = False"
| "truthy (JNum PInf) = True"
| "truthy (JNum NInf) = True"
| "truthy (JStr s) = (s \<noteq> [])"
| "truthy (JArr xs) = True"
| "truthy (JObj kvs) = True"

definition js_or :: "jsval \<Rightarrow> jsval \<Rightarrow> jsval" where
  "js_or a b = (if truthy a then a else b)"

fun js_gt :: "jsnum \<Rightarrow> jsnum \<Rightarrow> bool" where
  "js_gt (Fin a) (Fin b) = (b < a)"
| "js_gt NaN y = False"
| "js_gt x NaN = False"
| "js_gt PInf PInf = False"
| "js_gt PInf y = True"
| "js_gt x PInf = False"
| "js_gt NInf y = False"
| "js_gt x NInf = True"

subsection \<open>Strings\<close>

text \<open>
  \<open>split_on c s\<close> is \<open>s.split(c)\<close> for a one-character separator, \<open>join_comma\<close> is
  \<open>xs.join(',')\<close> on strings, and \<open>trim\<close> is \<open>s.trim()\<close>, with the white space and line
  terminators of ECMAScript among the code units below 256.
\<close>

fun split_on :: "char \<Rightarrow> string \<Rightarrow> string list" where
  "split_on c [] = [[]]"
| "split_on c (x # xs) =
     (if x = c then [] # split_on c xs
      else (case split_on c xs of
              [] \<Rightarrow> [[x]]
            | y # ys \<Rightarrow> (x # y) # ys))"

fun join_comma :: "string list \<Rightarrow> string" where
  "join_comma [] = []"
| "join_comma [s] = s"
| "join_comma (s # t # ts) = s @ '','' @ join_comma (t # ts)"

definition is_space :: "char \<Rightarrow> bool" where
  "is_space c = (of_char c \<in> {9, 10, 11, 12, 13, 32, 160 :: nat})"

definition trim :: "string \<Rightarrow> string" where
  "trim s = rev (dropWhile is_space (rev (dropWhile is_space s)))"

subsection \<open>Own properties\<close>

text \<open>
  \<open>index_of k\<close> reads a property key as an array index: a canonical decimal numeral.
  \<open>has_own v k\<close> is \<open>Object.prototype.hasOwnProperty.call(v, k)\<close> for a truthy \<open>v\<close>, and
  \<open>own_prop v k\<close> is \<open>v[k]\<close> for an own property. Arrays and strings own their indices and
  \<open>length\<close>; numbers and booleans own nothing.
\<close>

definition is_digit :: "char \<Rightarrow> bool" where
  "is_digit c = (48 \<le> (of_char c :: nat) \<and> (of_char c :: nat) \<le> 57)"

definition index_of :: "string \<Rightarrow> nat option" where
  "index_of k =
     (if k = [] \<or> \<not> list_all is_digit k \<or> (hd k = CHR ''0'' \<and> tl k \<noteq> []) then None
      else Some (foldl (\<lambda>a c. 10 * a + (of_char c - 48)) 0 k))"

definition has_index :: "nat \<Rightarrow> string \<Rightarrow> bool" where
  "has_index len k =
     (k = ''length'' \<or> (case index_of k of None \<Rightarrow> False | Some i \<Rightarrow> i < len))"

fun has_own :: "jsval \<Rightarrow> string \<Rightarrow> bool" where
  "has_own (JObj kvs) k = (map_of kvs k \<noteq> None)"
| "has_own (JArr xs) k = has_index (length xs) k"
| "has_own (JStr s) k = has_index (length s) k"
| "has_own v k = False"

fun own_prop :: "jsval \<Rightarrow> string \<Rightarrow> jsval" where
  "own_prop (JObj kvs) k = (case map_of kvs k of None \<Rightarrow> JUndefined | Some v \<Rightarrow> v)"
| "own_prop (JArr xs) k =
     (if k = ''length'' then JNum (Fin (of_nat (length xs)))
      else (case index_of k of
              None \<Rightarrow> JUndefined
            | Some i \<Rightarrow> if i < length xs then xs ! i else JUndefined))"
| "own_prop (JStr s) k =
     (if k = ''length'' then JNum (Fin (of_nat (length s)))
      else (case index_of k of
              None \<Rightarrow> JUndefined
            | Some i \<Rightarrow> if i < length s then JStr [s ! i] else JUndefined))"
| "own_prop v k = JUndefined"

text \<open>
  \<open>opt_get v k\<close> is \<open>v?.k\<close>. The keys the program reads this way (\<open>type\<close>, \<open>quote\<close>,
  \<open>data\<close>, \<open>payload\<close>) are not properties of any built-in prototype, so the read finds an
  own property or nothing.
\<close>

definition opt_get :: "jsval \<Rightarrow> string \<Rightarrow> jsval" where
  "opt_get v k = (if v = JUndefined \<or> v = JNull then JUndefined else own_prop v k)"

subsection \<open>Conversions\<close>

text \<open>
  \<open>String(v)\<close> and \<open>Number(v)\<close>. An array converts through \<open>join\<close>, which writes
  \<open>undefined\<close> and \<open>null\<close> elements as the empty string. An object converts through
  \<open>Object.prototype.toString\<close> to \<open>[object Object]\<close>, unless it has an own member
  \<open>toString\<close>: decoded data is never callable, so the conversion finds no method that
  returns a primitive and throws TypeError.
\<close>

fun sequence_err :: "(js_error + 'a) list \<Rightarrow> js_error + 'a list" where
  "sequence_err [] = Inr []"
| "sequence_err (Inl e # rs) = Inl e"
| "sequence_err (Inr x # rs) =
     (case sequence_err rs of Inl e \<Rightarrow> Inl e | Inr xs \<Rightarrow> Inr (x # xs))"

fun ToString :: "platform \<Rightarrow> jsval \<Rightarrow> js_error + string" where
  "ToString P JUndefined = Inr ''undefined''"
| "ToString P JNull = Inr ''null''"
| "ToString P (JBool b) = Inr (if b then ''true'' else ''false'')"
| "ToString P (JNum x) = Inr (NumberToString P x)"
| "ToString P (JStr s) = Inr s"
| "ToString P (JArr xs) =
     (case sequence_err
             (map (\<lambda>x. if x = JUndefined \<or> x = JNull then Inr [] else ToString P x) xs) of
        Inl e \<Rightarrow> Inl e
      | Inr ss \<Rightarrow> Inr (join_comma ss))"
| "ToString P (JObj kvs) =
     (if map_of kvs ''toString'' \<noteq> None then Inl TypeError else Inr ''[object Object]'')"

fun ToNumber :: "platform \<Rightarrow> jsval \<Rightarrow> js_error + jsnum" where
  "ToNumber P JUndefined = Inr NaN"
| "ToNumber P JNull = Inr (Fin 0)"
| "ToNumber P (JBool b) = Inr (Fin (if b then 1 else 0))"
| "ToNumber P (JNum x) = Inr x"
| "ToNumber P (JStr s) = Inr (StringToNumber P s)"
| "ToNumber P v =
     (case ToString P v of Inl e \<Rightarrow> Inl e | Inr s \<Rightarrow> Inr (StringToNumber P s))"

section \<open>State\<close>

text \<open>
  A stored quote and the patch that \<open>touchQuote\<close> receives are objects with the members
  \<open>bid\<close>, \<open>ask\<close>, \<open>last\<close> and \<open>time\<close>; an absent member reads as \<open>undefined\<close>.
\<close>

record quote =
  bid :: jsval
  ask :: jsval
  last_q :: jsval
  time :: jsval

definition empty_obj :: quote where
  "empty_obj = \<lparr>bid = JUndefined, ask = JUndefined, last_q = JUndefined, time = JUndefined\<rparr>"

text \<open>
  What is written to a response: the hello frame, the snapshot frame, an update frame
  and the keepalive comment. The JSON text of a frame is determined by these fields.
\<close>

datatype frame =
    Hello string
  | QuotesAll int "(string \<times> quote) list"
  | QuotesUpdate int string quote
  | Ping

text \<open>
  A subscriber holds a reference to its response object, its filter and its keepalive
  timer. Response objects live in a store (\<open>chan\<close>) addressed by the reference. A response
  object records every frame the program writes to it (\<open>written\<close>) and the frames its
  connection took (\<open>received\<close>). \<open>write\<close> on a string never throws: a write fails when the
  connection is gone, and the frame is then dropped.
\<close>

record subscriber =
  res :: nat
  filter_s :: "string set"
  ping :: nat

record channel =
  writable :: bool
  written :: "frame list"
  received :: "frame list"

text \<open>
  The state of the process: the \<open>quotes\<close> Map in insertion order, the \<open>subs\<close> Set in
  insertion order, the response objects, the running interval timers of the subscribers
  with the next timer handle, the number of clock readings taken so far,
  \<open>lastBrandEventAt\<close> (which the listener of the socket's stream event sets), and
  \<open>socket.connected\<close>.
\<close>

record world =
  quotes :: "(string \<times> quote) list"
  subs :: "subscriber list"
  chan :: "nat \<Rightarrow> channel"
  timers :: "nat list"
  next_timer :: nat
  ticks :: nat
  lastBrandEventAt :: int
  connected :: bool

text \<open>The configuration read from the environment (lines 12 to 19).\<close>

record config =
  TYPE_env :: string
  HEARTBEAT_MS :: jsnum
  STALE_MS :: jsnum
  READ_TOKEN :: string

definition init_world :: world where
  "init_world =
     \<lparr>quotes = [], subs = [], chan = (\<lambda>r. \<lparr>writable = True, written = [], received = []\<rparr>),
      timers = [], next_timer = 0, ticks = 0, lastBrandEventAt = 0, connected = False\<rparr>"

definition Date_now :: "platform \<Rightarrow> world \<Rightarrow> int \<times> world" where
  "Date_now P st = (clock P (ticks st), st\<lparr>ticks := Suc (ticks st)\<rparr>)"

definition wrote :: "frame \<Rightarrow> channel \<Rightarrow> channel" where
  "wrote line c =
     c\<lparr>written := written c @ [line],
       received := (if writable c then received c @ [line] else received c)\<rparr>"

definition res_write :: "nat \<Rightarrow> frame \<Rightarrow> world \<Rightarrow> world" where
  "res_write r line st = st\<lparr>chan := (chan st)(r := wrote line (chan st r))\<rparr>"

section \<open>Helpers\<close>

definition n_js :: "platform \<Rightarrow> jsval \<Rightarrow> js_error + jsnum" where
  "n_js P v =
     (case ToNumber P v of
        Inl e \<Rightarrow> Inl e
      | Inr x \<Rightarrow> Inr (if isFinite (JNum x) then x else NaN))"

text \<open>\<open>walk\<close> is the inner loop of \<open>first\<close> over the parts of one path.\<close>

fun walk :: "jsval \<Rightarrow> string list \<Rightarrow> jsval" where
  "walk cur [] = cur"
| "walk cur (k # ks) =
     (if truthy cur \<and> has_own cur k then walk (own_prop cur k) ks else JUndefined)"

fun first :: "jsval \<Rightarrow> string list \<Rightarrow> jsval" where
  "first obj [] = JUndefined"
| "first obj (p # ps) =
     (let cur = walk obj (split_on CHR ''.'' p)
      in if cur \<noteq> JUndefined \<and> cur \<noteq> JNull \<and> cur \<noteq> JStr [] then cur else first obj ps)"

text \<open>
  \<open>q.join(',')\<close> on an array is what \<open>String\<close> computes for it. The Set is the set of
  its members: the program only asks for its size being zero and for membership.
\<close>

definition parseSymbolsParam :: "platform \<Rightarrow> jsval \<Rightarrow> js_error + string set" where
  "parseSymbolsParam P q0 =
     (case (case q0 of JArr xs \<Rightarrow> map_sum id JStr (ToString P (JArr xs)) | _ \<Rightarrow> Inr q0) of
        Inl e \<Rightarrow> Inl e
      | Inr q \<Rightarrow>
          (case ToString P (js_or q (JStr [])) of
             Inl e \<Rightarrow> Inl e
           | Inr s \<Rightarrow> Inr (set (filter (\<lambda>t. t \<noteq> []) (map trim (split_on CHR '','' s))))))"

text \<open>
  A request as the routes read it: \<open>req.query.token\<close>, \<open>req.headers['x-read-token']\<close>,
  \<open>req.query.symbols\<close> and \<open>req.query['symbols[]']\<close>. \<open>checkToken\<close> returns whether the
  request may proceed; when it may not, the response is the 401 reply.
\<close>

record request =
  query_token :: jsval
  header_token :: jsval
  query_symbols :: jsval
  query_symbols_arr :: jsval

definition checkToken :: "config \<Rightarrow> platform \<Rightarrow> request \<Rightarrow> js_error + bool" where
  "checkToken cfg P req =
     (if READ_TOKEN cfg = [] then Inr True
      else (case ToString P (js_or (query_token req) (js_or (header_token req) (JStr []))) of
              Inl e \<Rightarrow> Inl e
            | Inr provided \<Rightarrow> Inr (provided = READ_TOKEN cfg)))"

text \<open>The body of the loop of \<open>pushQuote\<close> for one subscriber.\<close>

definition deliver :: "string \<Rightarrow> frame \<Rightarrow> subscriber \<Rightarrow> world \<Rightarrow> world" where
  "deliver symbol line sub w =
     (if filter_s sub \<noteq> {} \<and> symbol \<notin> filter_s sub then w else res_write (res sub) line w)"

definition pushQuote :: "platform \<Rightarrow> string \<Rightarrow> world \<Rightarrow> world" where
  "pushQuote P symbol st =
     (case map_of (quotes st) symbol of
        None \<Rightarrow> st
      | Some q \<Rightarrow>
          (let (now, st1) = Date_now P st;
               line = QuotesUpdate now symbol q
           in fold (deliver symbol line) (subs st1) st1))"

definition touchQuote :: "platform \<Rightarrow> string \<Rightarrow> quote \<Rightarrow> world \<Rightarrow> world" where
  "touchQuote P symbol patch st =
     (if symbol = [] then st
      else
        (let cur = (case map_of (quotes st) symbol of None \<Rightarrow> empty_obj | Some q \<Rightarrow> q);
             (now, st1) = Date_now P st;
             out = \<lparr>bid = (if isFinite (bid patch) then bid patch else bid cur),
                    ask = (if isFinite (ask patch) then ask patch else ask cur),
                    last_q = (if isFinite (last_q patch) then last_q patch else last_q cur),
                    time = js_or (time patch) (JNum (Fin (of_int now)))\<rparr>
         in pushQuote P symbol (st1\<lparr>quotes := AList.update symbol out (quotes st1)\<rparr>)))"

text \<open>
  \<open>quote_src m\<close> is the payload that line 76 selects. \<open>processQuoteLikeEvent\<close> returns
  the new state, or the exception that leaves the listener: a conversion that throws is
  not caught anywhere, so it reaches the \<open>uncaughtException\<close> handler, which ends the
  process.
\<close>

definition quote_src :: "jsval \<Rightarrow> jsval" where
  "quote_src m =
     js_or (opt_get m ''quote'')
       (js_or (opt_get (opt_get m ''data'') ''quote'')
          (js_or (opt_get (opt_get m ''payload'') ''quote'')
             (js_or (opt_get m ''payload'') m)))"

definition symbol_keys :: "string list" where
  "symbol_keys = [''symbol'', ''instrument'', ''symbolName'', ''s'', ''Symbol'']"

definition bid_keys :: "string list" where
  "bid_keys = [''bid'', ''b'', ''Bid'', ''BidPrice'']"

definition ask_keys :: "string list" where
  "ask_keys = [''ask'', ''a'', ''Ask'', ''AskPrice'']"

definition last_keys :: "string list" where
  "last_keys = [''last'', ''price'', ''p'', ''mark'', ''Last'', ''LastPrice'']"

definition time_keys :: "string list" where
  "time_keys = [''time'', ''ts'', ''timestamp'', ''Time'', ''Timestamp'']"

definition finite_or_undefined :: "jsnum \<Rightarrow> jsval" where
  "finite_or_undefined x = (if isFinite (JNum x) then JNum x else JUndefined)"

definition processQuoteLikeEvent :: "platform \<Rightarrow> jsval \<Rightarrow> world \<Rightarrow> js_error + world" where
  "processQuoteLikeEvent P m st =
     (let src = quote_src m
      in case ToString P (js_or (first src symbol_keys) (JStr [])) of
           Inl e \<Rightarrow> Inl e
         | Inr symbol \<Rightarrow>
             if symbol = [] then Inr st
             else
               (case n_js P (first src bid_keys) of
                  Inl e \<Rightarrow> Inl e
                | Inr b \<Rightarrow>
               (case n_js P (first src ask_keys) of
                  Inl e \<Rightarrow> Inl e
                | Inr a \<Rightarrow>
               (case n_js P (first src last_keys) of
                  Inl e \<Rightarrow> Inl e
                | Inr l \<Rightarrow>
               (case ToNumber P (first src time_keys) of
                  Inl e \<Rightarrow> Inl e
                | Inr t \<Rightarrow>
                    (let (tm, st1) =
                           (if truthy (JNum t) then (JNum t, st)
                            else (case Date_now P st of
                                    (c, st') \<Rightarrow> (JNum (Fin (of_int c)), st')))
                     in Inr (touchQuote P symbol
                               \<lparr>bid = finite_or_undefined b,
                                ask = finite_or_undefined a,
                                last_q = finite_or_undefined l,
                                time = tm\<rparr> st1)))))))"

section \<open>Brand socket\<close>

text \<open>
  The listener of the socket's \<open>stream\<close> event (lines 118 to 125), through which every
  upstream event enters. \<open>toUpperCase\<close> gives the code units of the upper-case string: the
  upper case of a code unit below 256 may lie above 255 or be two units long.
  \<open>includes_js t pat\<close> is \<open>t.includes(pat)\<close>. The method call \<open>.toString()\<close> on the type,
  or on the empty string when the type is falsy, returns what \<open>String\<close> returns and throws
  where it throws. An exception at line 120 leaves the listener like one of
  \<open>processQuoteLikeEvent\<close>.
\<close>

definition upper_unit :: "char \<Rightarrow> nat list" where
  "upper_unit c =
     (let n = (of_char c :: nat)
      in if 97 \<le> n \<and> n \<le> 122 then [n - 32]
         else if n = 181 then [924]
         else if n = 223 then [83, 83]
         else if 224 \<le> n \<and> n \<le> 254 \<and> n \<noteq> 247 then [n - 32]
         else if n = 255 then [376]
         else [n])"

definition toUpperCase :: "string \<Rightarrow> nat list" where
  "toUpperCase s = concat (map upper_unit s)"

fun includes_js :: "nat list \<Rightarrow> string \<Rightarrow> bool" where
  "includes_js [] pat = (pat = [])"
| "includes_js (x # xs) pat =
     (take (length pat) (x # xs) = map of_char pat \<or> includes_js xs pat)"

definition on_stream :: "platform \<Rightarrow> jsval \<Rightarrow> world \<Rightarrow> js_error + world" where
  "on_stream P m st =
     (let (now, st1) = Date_now P st;
          st2 = st1\<lparr>lastBrandEventAt := now\<rparr>
      in case ToString P (js_or (opt_get m ''type'') (JStr [])) of
           Inl e \<Rightarrow> Inl e
         | Inr s \<Rightarrow>
             (let t = toUpperCase s
              in if includes_js t ''QUOTE'' \<or> includes_js t ''TICK'' \<or>
                    includes_js t ''PRIC'' \<or> includes_js t ''MARKET'' \<or>
                    truthy (opt_get m ''quote'') \<or>
                    truthy (opt_get (opt_get m ''data'') ''quote'') \<or>
                    truthy (opt_get (opt_get m ''payload'') ''quote'')
                 then processQuoteLikeEvent P m st2
                 else Inr st2))"

section \<open>Watchdog\<close>

text \<open>
  One run of the interval callback of lines 127 to 133. \<open>process.exit(1)\<close> is the result
  \<open>Inl (Exit 1)\<close>.
\<close>

datatype halt = Exit int

definition watchdog :: "config \<Rightarrow> platform \<Rightarrow> world \<Rightarrow> halt + world" where
  "watchdog cfg P st =
     (if \<not> truthy (JNum (STALE_MS cfg)) then Inr st
      else if \<not> connected st then
        (let (now, st1) = Date_now P st;
             age = now - (if lastBrandEventAt st1 \<noteq> 0 then lastBrandEventAt st1 else 0)
         in if js_gt (Fin (of_int age)) (STALE_MS cfg) then Inl (Exit 1) else Inr st1)
      else Inr st)"

section \<open>Routes\<close>

text \<open>
  \<open>obj_set out s q\<close> is \<open>out[s] = q\<close> on a plain object, for an object \<open>q\<close>. The key
  \<open>__proto__\<close> is an accessor of \<open>Object.prototype\<close>: assigning an object to it replaces the
  prototype of \<open>out\<close> and creates no own member, so neither \<open>Object.keys\<close> nor the JSON
  text shows it. \<open>collect\<close> is the loop that both routes run over \<open>quotes.entries()\<close>.
\<close>

definition obj_set :: "(string \<times> quote) list \<Rightarrow> string \<Rightarrow> quote \<Rightarrow> (string \<times> quote) list" where
  "obj_set out s q = (if s = ''__proto__'' then out else AList.update s q out)"

definition collect :: "string set \<Rightarrow> (string \<times> quote) list \<Rightarrow> (string \<times> quote) list" where
  "collect fltr entries =
     fold (\<lambda>(s, q) out. if fltr \<noteq> {} \<and> s \<notin> fltr then out else obj_set out s q) entries []"

datatype response =
    Unauthorized
  | StateJson int nat "(string \<times> quote) list"

text \<open>
  \<open>GET /quotes/state\<close>: the reply carries \<open>serverTime\<close>, \<open>count\<close> and \<open>quotes\<close>. An
  exception leaves the handler to the framework.
\<close>

definition quotes_state ::
  "config \<Rightarrow> platform \<Rightarrow> request \<Rightarrow> world \<Rightarrow> js_error + response \<times> world" where
  "quotes_state cfg P req st =
     (case checkToken cfg P req of
        Inl e \<Rightarrow> Inl e
      | Inr ok \<Rightarrow>
          if \<not> ok then Inr (Unauthorized, st)
          else
            (case parseSymbolsParam P (js_or (query_symbols req) (query_symbols_arr req)) of
               Inl e \<Rightarrow> Inl e
             | Inr fltr \<Rightarrow>
                 (let out = collect fltr (quotes st);
                      (now, st1) = Date_now P st
                  in Inr (StateJson now (length out) out, st1))))"

text \<open>
  \<open>GET /quotes/stream\<close> for a request whose response object is \<open>r\<close>: the hello frame, the
  snapshot frame, a new interval timer, and the registration. \<open>on_close\<close> is the listener
  of the request's \<open>close\<close> event, \<open>ping_tick\<close> the timer's callback, and
  \<open>drop_connection\<close> is the peer going away.
\<close>

definition quotes_stream ::
  "config \<Rightarrow> platform \<Rightarrow> request \<Rightarrow> nat \<Rightarrow> world \<Rightarrow> js_error + response option \<times> world" where
  "quotes_stream cfg P req r st =
     (case checkToken cfg P req of
        Inl e \<Rightarrow> Inl e
      | Inr ok \<Rightarrow>
          if \<not> ok then Inr (Some Unauthorized, st)
          else
            (case parseSymbolsParam P (js_or (query_symbols req) (query_symbols_arr req)) of
               Inl e \<Rightarrow> Inl e
             | Inr fltr \<Rightarrow>
                 (let st1 = res_write r (Hello (TYPE_env cfg)) st;
                      all = collect fltr (quotes st1);
                      (now, st2) = Date_now P st1;
                      st3 = res_write r (QuotesAll now all) st2;
                      sub = \<lparr>res = r, filter_s = fltr, ping = next_timer st3\<rparr>
                  in Inr (None,
                          st3\<lparr>timers := timers st3 @ [ping sub],
                              next_timer := Suc (next_timer st3),
                              subs := subs st3 @ [sub]\<rparr>))))"

definition on_close :: "subscriber \<Rightarrow> world \<Rightarrow> world" where
  "on_close sub st =
     st\<lparr>timers := removeAll (ping sub) (timers st), subs := removeAll sub (subs st)\<rparr>"

definition ping_tick :: "subscriber \<Rightarrow> world \<Rightarrow> world" where
  "ping_tick sub st = res_write (res sub) Ping st"

definition drop_connection :: "nat \<Rightarrow> world \<Rightarrow> world" where
  "drop_connection r st = st\<lparr>chan := (chan st)(r := (chan st r)\<lparr>writable := False\<rparr>)\<rparr>"

section \<open>A platform for the examples\<close>

text \<open>
  The examples below run the model on one platform. Its \<open>StringToNumber\<close> reads the
  numeric literals of ECMAScript (white space around, decimal literals with fraction and
  exponent, \<open>Infinity\<close>, and the binary, octal and hexadecimal forms) and returns the exact
  value of the literal, without rounding. Its \<open>NumberToString\<close> is given on the integers,
  NaN and the infinities (for another number it writes the integer part; no example
  converts one). Its clock advances one millisecond per reading.
\<close>

definition digit_of :: "char \<Rightarrow> nat option" where
  "digit_of c =
     (let n = (of_char c :: nat)
      in if 48 \<le> n \<and> n \<le> 57 then Some (n - 48)
         else if 97 \<le> n \<and> n \<le> 102 then Some (n - 87)
         else if 65 \<le> n \<and> n \<le> 70 then Some (n - 55)
         else None)"

definition radix_value :: "nat \<Rightarrow> string \<Rightarrow> jsnum" where
  "radix_value base ds =
     (if ds \<noteq> [] \<and> list_all (\<lambda>c. case digit_of c of None \<Rightarrow> False | Some d \<Rightarrow> d < base) ds
      then Fin (of_nat (foldl (\<lambda>a c. base * a + (case digit_of c of None \<Rightarrow> 0 | Some d \<Rightarrow> d))
                          0 ds))
      else NaN)"

definition decimal_value :: "string \<Rightarrow> nat" where
  "decimal_value ds = foldl (\<lambda>a c. 10 * a + (of_char c - 48)) 0 ds"

definition exponent_part :: "string \<Rightarrow> int option" where
  "exponent_part r =
     (if r = [] then Some 0
      else if hd r = CHR ''e'' \<or> hd r = CHR ''E'' then
        (let r' = tl r;
             signed = (r' \<noteq> [] \<and> (hd r' = CHR ''+'' \<or> hd r' = CHR ''-''));
             ds = (if signed then tl r' else r')
         in if ds \<noteq> [] \<and> list_all is_digit ds
            then Some ((if signed \<and> hd r' = CHR ''-'' then - 1 else 1) * int (decimal_value ds))
            else None)
      else None)"

definition unsigned_decimal :: "string \<Rightarrow> jsnum" where
  "unsigned_decimal s =
     (if s = ''Infinity'' then PInf
      else
        (let ip = takeWhile is_digit s;
             r1 = dropWhile is_digit s;
             dot = (r1 \<noteq> [] \<and> hd r1 = CHR ''.'');
             fp = (if dot then takeWhile is_digit (tl r1) else []);
             r2 = (if dot then dropWhile is_digit (tl r1) else r1);
             mant = (of_nat (decimal_value ip) :: rat)
                    + of_nat (decimal_value fp) / 10 ^ length fp
         in if ip = [] \<and> fp = [] then NaN
            else (case exponent_part r2 of
                    None \<Rightarrow> NaN
                  | Some e \<Rightarrow> Fin (if 0 \<le> e then mant * 10 ^ nat e else mant / 10 ^ nat (- e)))))"

fun negate :: "jsnum \<Rightarrow> jsnum" where
  "negate (Fin x) = Fin (- x)"
| "negate PInf = NInf"
| "negate NInf = PInf"
| "negate NaN = NaN"

definition exact_StringToNumber :: "string \<Rightarrow> jsnum" where
  "exact_StringToNumber s =
     (let t = trim s
      in if t = [] then Fin 0
         else if take 2 t = ''0x'' \<or> take 2 t = ''0X'' then radix_value 16 (drop 2 t)
         else if take 2 t = ''0o'' \<or> take 2 t = ''0O'' then radix_value 8 (drop 2 t)
         else if take 2 t = ''0b'' \<or> take 2 t = ''0B'' then radix_value 2 (drop 2 t)
         else if hd t = CHR ''+'' then unsigned_decimal (tl t)
         else if hd t = CHR ''-'' then negate (unsigned_decimal (tl t))
         else unsigned_decimal t)"

fun digits :: "nat \<Rightarrow> string" where
  "digits n =
     (if n < 10 then [char_of (48 + n)] else digits (n div 10) @ [char_of (48 + n mod 10)])"

definition integer_NumberToString :: "jsnum \<Rightarrow> string" where
  "integer_NumberToString x =
     (case x of
        NaN \<Rightarrow> ''NaN''
      | PInf \<Rightarrow> ''Infinity''
      | NInf \<Rightarrow> ''-Infinity''
      | Fin r \<Rightarrow> (if r < 0 then ''-'' else []) @ digits (nat \<lfloor>\<bar>r\<bar>\<rfloor>))"

definition example_platform :: platform where
  "example_platform =
     \<lparr>StringToNumber = exact_StringToNumber,
      NumberToString = integer_NumberToString,
      clock = (\<lambda>k. 1700000000000 + int k)\<rparr>"

section \<open>Notions of the specification\<close>

text \<open>
  \<open>latest_finite f v0 ds\<close> is the value of the field \<open>f\<close> in the most recent delta of \<open>ds\<close>
  that supplied a finite number for it, and \<open>v0\<close> when no delta did.
\<close>

definition latest_finite :: "(quote \<Rightarrow> jsval) \<Rightarrow> jsval \<Rightarrow> quote list \<Rightarrow> jsval" where
  "latest_finite f v0 ds =
     (case filter (\<lambda>d. isFinite (f d)) ds of [] \<Rightarrow> v0 | x # xs \<Rightarrow> f (last (x # xs)))"

text \<open>
  \<open>merge_all P es st\<close> calls \<open>touchQuote\<close> for each symbol and delta of \<open>es\<close> in turn, and
  \<open>deltas_of symbol es\<close> are the deltas of \<open>es\<close> for one symbol, in their order.
\<close>

definition merge_all :: "platform \<Rightarrow> (string \<times> quote) list \<Rightarrow> world \<Rightarrow> world" where
  "merge_all P es st = fold (\<lambda>e. touchQuote P (fst e) (snd e)) es st"

definition deltas_of :: "string \<Rightarrow> (string \<times> quote) list \<Rightarrow> quote list" where
  "deltas_of symbol es = map snd (filter (\<lambda>e. fst e = symbol) es)"

text \<open>
  \<open>stored st symbol\<close> is \<open>quotes.get(symbol) || {}\<close>. \<open>prices\<close> is a quote without its
  time.
\<close>

definition stored :: "world \<Rightarrow> string \<Rightarrow> quote" where
  "stored st symbol = (case map_of (quotes st) symbol of None \<Rightarrow> empty_obj | Some q \<Rightarrow> q)"

definition prices :: "quote \<Rightarrow> jsval \<times> jsval \<times> jsval" where
  "prices q = (bid q, ask q, last_q q)"

text \<open>
  \<open>tokens s\<close> is the set of the comma-separated pieces of \<open>s\<close>, each trimmed, without the
  empty ones.
\<close>

definition tokens :: "string \<Rightarrow> string set" where
  "tokens s = {t. t \<noteq> [] \<and> (\<exists>piece \<in> set (split_on CHR '','' s). t = trim piece)}"

text \<open>
  \<open>param_text P q\<close> is the text of a parameter value: an array is joined with commas, a
  missing or otherwise falsy value is the empty text, and any other value is converted
  with \<open>String\<close>.
\<close>

definition param_text :: "platform \<Rightarrow> jsval \<Rightarrow> js_error + string" where
  "param_text P q =
     (case q of
        JArr xs \<Rightarrow> ToString P (JArr xs)
      | _ \<Rightarrow> if truthy q then ToString P q else Inr [])"

text \<open>A filter accepts a symbol when it is empty or holds the symbol.\<close>

definition accepted :: "string set \<Rightarrow> string \<Rightarrow> bool" where
  "accepted fltr s = (fltr = {} \<or> s \<in> fltr)"

section \<open>Example states\<close>

text \<open>
  The configuration with every default of lines 12 to 19, a request without token, and
  the state after two clients opened a stream (the first without filter, the second for
  EURUSD) and two quotes arrived.
\<close>

definition default_config :: config where
  "default_config =
     \<lparr>TYPE_env = ''LIVE'', HEARTBEAT_MS = Fin 1000, STALE_MS = Fin 120000, READ_TOKEN = []\<rparr>"

definition stream_request :: "jsval \<Rightarrow> request" where
  "stream_request symbols =
     \<lparr>query_token = JUndefined, header_token = JUndefined,
      query_symbols = symbols, query_symbols_arr = JUndefined\<rparr>"

definition after_stream :: "jsval \<Rightarrow> nat \<Rightarrow> world \<Rightarrow> world" where
  "after_stream symbols r st =
     (case quotes_stream default_config example_platform (stream_request symbols) r st of
        Inl e \<Rightarrow> st
      | Inr (reply, st') \<Rightarrow> st')"

definition two_subscribers :: world where
  "two_subscribers =
     touchQuote example_platform ''GBPUSD''
       \<lparr>bid = JNum (Fin (11 / 10)), ask = JUndefined, last_q = JUndefined,
        time = JNum (Fin 1700000000000)\<rparr>
       (touchQuote example_platform ''EURUSD''
          \<lparr>bid = JNum (Fin (217 / 200)), ask = JUndefined, last_q = JUndefined,
           time = JNum (Fin 1700000000000)\<rparr>
          (after_stream (JStr ''EURUSD'') 1 (after_stream JUndefined 0 init_world)))"

text \<open>A state whose last upstream event is \<open>age\<close> milliseconds old at the next clock reading.\<close>

definition stale_world :: "int \<Rightarrow> world" where
  "stale_world age = init_world\<lparr>lastBrandEventAt := 1700000000000 - age\<rparr>"

text \<open>
  Events: the quote of the specification's example, a quote whose time is the number 0,
  a quote whose bid is an object with a member \<open>toString\<close>, an event without symbol
  whose type is such an object, and a quote for the symbol \<open>__proto__\<close> with the state it
  leaves.
\<close>

definition quote_event :: jsval where
  "quote_event =
     JObj [(''type'', JStr ''QUOTE''),
           (''quote'', JObj [(''symbol'', JStr ''EURUSD''), (''bid'', JStr ''1.0850''),
                             (''ask'', JNum (Fin (2713 / 2500)))])]"

definition zero_time_event :: jsval where
  "zero_time_event =
     JObj [(''type'', JStr ''QUOTE''), (''symbol'', JStr ''EURUSD''), (''bid'', JStr ''1.0850''),
           (''time'', JNum (Fin 0))]"

definition toString_event :: jsval where
  "toString_event =
     JObj [(''type'', JStr ''QUOTE''), (''symbol'', JStr ''EURUSD''),
           (''bid'', JObj [(''toString'', JNum (Fin 1))])]"

definition type_toString_event :: jsval where
  "type_toString_event = JObj [(''type'', JObj [(''toString'', JNum (Fin 1))])]"

definition proto_event :: jsval where
  "proto_event =
     JObj [(''type'', JStr ''QUOTE''), (''symbol'', JStr ''__proto__''), (''bid'', JNum (Fin 1))]"

definition proto_world :: world where
  "proto_world =
     touchQuote example_platform ''__proto__''
       \<lparr>bid = JNum (Fin 1), ask = JUndefined, last_q = JUndefined,
        time = JNum (Fin 1700000000000)\<rparr> (init_world\<lparr>ticks := Suc 0\<rparr>)"

text \<open>Merges for two symbols.\<close>

definition gbpusd_merges :: "(string \<times> quote) list" where
  "gbpusd_merges =
     [(''GBPUSD'', \<lparr>bid = JNum (Fin (11 / 10)), ask = JUndefined, last_q = JUndefined,
                    time = JUndefined\<rparr>),
      (''EURUSD'', \<lparr>bid = JNum (Fin (217 / 200)), ask = JUndefined, last_q = JNum (Fin 1),
                    time = JUndefined\<rparr>),
      (''GBPUSD'', \<lparr>bid = JUndefined, ask = JNum (Fin (28 / 25)), last_q = JUndefined,
                    time = JUndefined\<rparr>),
      (''GBPUSD'', \<lparr>bid = JNum NaN, ask = JUndefined, last_q = JUndefined,
                    time = JUndefined\<rparr>)]"

section \<open>Strings\<close>

text \<open>
  \<open>split_on\<close> cuts a string at every separator and nowhere else, \<open>join_comma\<close> undoes
  it, and \<open>trim\<close> returns a part of its argument that neither begins nor ends with white
  space.
\<close>

lemma split_on_nonempty: "split_on c s \<noteq> []"
  by (induction s) (auto split: list.splits)

lemma split_on_pieces: "p \<in> set (split_on c s) \<Longrightarrow> c \<notin> set p"
  by (induction s arbitrary: p) (auto split: list.splits if_splits)

lemma join_comma_Cons:
  "ps \<noteq> [] \<Longrightarrow> join_comma (p # ps) = p @ '','' @ join_comma ps"
  by (cases ps) simp_all

lemma join_comma_split_on: "join_comma (split_on CHR '','' s) = s"
proof (induction s)
  case Nil
  then show ?case by simp
next
  case (Cons x xs)
  show ?case
  proof (cases "x = CHR '',''")
    case True
    then show ?thesis
      using Cons.IH by (simp add: join_comma_Cons split_on_nonempty)
  next
    case False
    obtain y ys where s: "split_on CHR '','' xs = y # ys"
      using split_on_nonempty [of "CHR '',''" xs] by (cases "split_on CHR '','' xs") auto
    show ?thesis
      using Cons.IH False s by (cases ys) simp_all
  qed
qed

lemma trim_subset: "set (trim s) \<subseteq> set s"
  by (auto simp: trim_def dest!: set_dropWhileD)

lemma trim_ends:
  assumes "trim s \<noteq> []"
  shows "\<not> is_space (hd (trim s)) \<and> \<not> is_space (last (trim s))"
proof -
  define a where "a = dropWhile is_space s"
  define b where "b = dropWhile is_space (rev a)"
  have t: "trim s = rev b"
    by (simp add: trim_def a_def b_def)
  have b: "b \<noteq> []"
    using assms t by simp
  have l: "\<not> is_space (hd b)"
    using b unfolding b_def by (rule hd_dropWhile)
  have a: "a \<noteq> []"
  proof
    assume "a = []"
    then have "b = []" by (simp add: b_def)
    with b show False by simp
  qed
  have h: "\<not> is_space (hd a)"
    using a unfolding a_def by (rule hd_dropWhile)
  have "rev a = takeWhile is_space (rev a) @ b"
    by (simp add: b_def)
  then have "rev (rev a) = rev (takeWhile is_space (rev a) @ b)"
    by (rule arg_cong)
  then have "a = rev b @ rev (takeWhile is_space (rev a))"
    by (simp only: rev_rev_ident rev_append)
  then obtain w where w: "a = rev b @ w" ..
  have "hd a = hd (rev b)"
    unfolding w using b by simp
  moreover have "last (rev b) = hd b"
    using b by (simp add: last_rev)
  ultimately show ?thesis
    using l h by (simp add: t)
qed

lemma tokens_shape:
  assumes "t \<in> tokens s"
  shows "t \<noteq> [] \<and> CHR '','' \<notin> set t \<and> \<not> is_space (hd t) \<and> \<not> is_space (last t)"
proof -
  from assms obtain p where p: "p \<in> set (split_on CHR '','' s)" and t: "t = trim p" "t \<noteq> []"
    by (auto simp: tokens_def)
  have "CHR '','' \<notin> set p" using p by (rule split_on_pieces)
  then have "CHR '','' \<notin> set t" using trim_subset [of p] t by auto
  then show ?thesis using trim_ends [of p] t by simp
qed

section \<open>The store under \<open>touchQuote\<close>\<close>

lemma quotes_res_write: "quotes (res_write r line st) = quotes st"
  by (simp add: res_write_def)

lemma ticks_res_write: "ticks (res_write r line st) = ticks st"
  by (simp add: res_write_def)

lemma subs_res_write: "subs (res_write r line st) = subs st"
  by (simp add: res_write_def)

lemma timers_res_write: "timers (res_write r line st) = timers st"
  by (simp add: res_write_def)

lemma fold_deliver_fields:
  "quotes (fold (deliver symbol line) xs st) = quotes st \<and>
   ticks (fold (deliver symbol line) xs st) = ticks st \<and>
   subs (fold (deliver symbol line) xs st) = subs st \<and>
   timers (fold (deliver symbol line) xs st) = timers st"
  by (induction xs arbitrary: st)
     (simp_all add: deliver_def quotes_res_write ticks_res_write subs_res_write
        timers_res_write)

lemma pushQuote_unfold:
  "pushQuote P symbol st =
     (case map_of (quotes st) symbol of
        None \<Rightarrow> st
      | Some q \<Rightarrow>
          fold (deliver symbol (QuotesUpdate (clock P (ticks st)) symbol q)) (subs st)
            (st\<lparr>ticks := Suc (ticks st)\<rparr>))"
  by (simp add: pushQuote_def Date_now_def Let_def split: option.splits)

lemma quotes_pushQuote: "quotes (pushQuote P symbol st) = quotes st"
  by (simp add: pushQuote_unfold fold_deliver_fields split: option.splits)

lemma ticks_pushQuote:
  "ticks (pushQuote P symbol st) =
     (if map_of (quotes st) symbol = None then ticks st else Suc (ticks st))"
  by (simp add: pushQuote_unfold fold_deliver_fields split: option.splits)

text \<open>What one call of \<open>touchQuote\<close> stores.\<close>

lemma quotes_touchQuote:
  "symbol \<noteq> [] \<Longrightarrow>
   quotes (touchQuote P symbol patch st) =
     AList.update symbol
       \<lparr>bid = (if isFinite (bid patch) then bid patch else bid (stored st symbol)),
        ask = (if isFinite (ask patch) then ask patch else ask (stored st symbol)),
        last_q = (if isFinite (last_q patch) then last_q patch else last_q (stored st symbol)),
        time = js_or (time patch) (JNum (Fin (of_int (clock P (ticks st)))))\<rparr>
       (quotes st)"
  by (simp add: touchQuote_def Date_now_def Let_def quotes_pushQuote stored_def)

lemma touchQuote_empty_symbol: "touchQuote P [] patch st = st"
  by (simp add: touchQuote_def)

lemma ticks_touchQuote:
  "symbol \<noteq> [] \<Longrightarrow> ticks (touchQuote P symbol patch st) = Suc (Suc (ticks st))"
  by (simp add: touchQuote_def Date_now_def Let_def ticks_pushQuote update_conv')

lemma stored_touchQuote:
  "symbol \<noteq> [] \<Longrightarrow>
   stored (touchQuote P symbol patch st) symbol =
     \<lparr>bid = (if isFinite (bid patch) then bid patch else bid (stored st symbol)),
      ask = (if isFinite (ask patch) then ask patch else ask (stored st symbol)),
      last_q = (if isFinite (last_q patch) then last_q patch else last_q (stored st symbol)),
      time = js_or (time patch) (JNum (Fin (of_int (clock P (ticks st)))))\<rparr>"
  by (simp add: stored_def quotes_touchQuote update_conv')

lemma present_touchQuote:
  "symbol \<noteq> [] \<Longrightarrow> map_of (quotes (touchQuote P symbol patch st)) symbol \<noteq> None"
  by (simp add: quotes_touchQuote update_conv')

lemma latest_finite_Cons:
  "latest_finite f v0 (d # ds) = latest_finite f (if isFinite (f d) then f d else v0) ds"
  by (simp add: latest_finite_def split: list.splits)

lemma stored_touchQuote_other:
  "s \<noteq> symbol \<Longrightarrow> stored (touchQuote P s d st) symbol = stored st symbol"
  by (cases "s = []") (simp_all add: touchQuote_empty_symbol stored_def quotes_touchQuote update_conv')

lemma present_touchQuote_other:
  "map_of (quotes st) symbol \<noteq> None \<Longrightarrow> map_of (quotes (touchQuote P s d st)) symbol \<noteq> None"
  by (cases "s = []") (simp_all add: touchQuote_empty_symbol quotes_touchQuote update_conv')

lemma merge_all_stored:
  "symbol \<noteq> [] \<Longrightarrow>
   bid (stored (merge_all P es st) symbol)
     = latest_finite bid (bid (stored st symbol)) (deltas_of symbol es) \<and>
   ask (stored (merge_all P es st) symbol)
     = latest_finite ask (ask (stored st symbol)) (deltas_of symbol es) \<and>
   last_q (stored (merge_all P es st) symbol)
     = latest_finite last_q (last_q (stored st symbol)) (deltas_of symbol es)"
proof (induction es arbitrary: st)
  case Nil
  then show ?case by (simp add: latest_finite_def merge_all_def deltas_of_def)
next
  case (Cons e es)
  have step: "merge_all P (e # es) st = merge_all P es (touchQuote P (fst e) (snd e) st)"
    by (simp add: merge_all_def)
  show ?case
  proof (cases "fst e = symbol")
    case True
    then have d: "deltas_of symbol (e # es) = snd e # deltas_of symbol es"
      by (simp add: deltas_of_def)
    show ?thesis
      using Cons.IH [OF Cons.prems, of "touchQuote P symbol (snd e) st"] Cons.prems True
      by (simp add: step d latest_finite_Cons stored_touchQuote)
  next
    case False
    then have d: "deltas_of symbol (e # es) = deltas_of symbol es"
      by (simp add: deltas_of_def)
    show ?thesis
      using Cons.IH [OF Cons.prems, of "touchQuote P (fst e) (snd e) st"] False
      by (simp add: step d stored_touchQuote_other)
  qed
qed

lemma merge_all_present:
  "symbol \<noteq> [] \<Longrightarrow>
   deltas_of symbol es \<noteq> [] \<or> map_of (quotes st) symbol \<noteq> None \<Longrightarrow>
   map_of (quotes (merge_all P es st)) symbol \<noteq> None"
proof (induction es arbitrary: st)
  case Nil
  then show ?case by (simp add: merge_all_def deltas_of_def)
next
  case (Cons e es)
  have step: "merge_all P (e # es) st = merge_all P es (touchQuote P (fst e) (snd e) st)"
    by (simp add: merge_all_def)
  have "deltas_of symbol es \<noteq> [] \<or>
        map_of (quotes (touchQuote P (fst e) (snd e) st)) symbol \<noteq> None"
  proof (cases "fst e = symbol")
    case True
    then show ?thesis using Cons.prems(1) by (simp add: present_touchQuote)
  next
    case False
    then have "deltas_of symbol (e # es) = deltas_of symbol es"
      by (simp add: deltas_of_def)
    then show ?thesis
      using Cons.prems(2) present_touchQuote_other [of st symbol P "fst e" "snd e"] by auto
  qed
  then show ?case
    using Cons.IH [OF Cons.prems(1)] by (simp add: step)
qed

text \<open>
  C1. Run any sequence of merges from a state that does not hold a symbol yet. If the
  sequence merges at least one delta into the symbol, the stored quote of the symbol has,
  in each of \<open>bid\<close>, \<open>ask\<close> and \<open>last\<close>, the value of the most recent of these deltas that
  supplied a finite number for that field, and \<open>undefined\<close> when none of them did.
\<close>

theorem touchQuote_latest_finite:
  assumes "symbol \<noteq> []" and "map_of (quotes st) symbol = None"
    and "deltas_of symbol es \<noteq> []"
  shows "\<exists>q. map_of (quotes (merge_all P es st)) symbol = Some q \<and>
             bid q = latest_finite bid JUndefined (deltas_of symbol es) \<and>
             ask q = latest_finite ask JUndefined (deltas_of symbol es) \<and>
             last_q q = latest_finite last_q JUndefined (deltas_of symbol es)"
proof -
  obtain q where q: "map_of (quotes (merge_all P es st)) symbol = Some q"
    using merge_all_present [OF assms(1), of es st P] assms(3) by blast
  then have s: "stored (merge_all P es st) symbol = q"
    by (simp add: stored_def)
  have e: "stored st symbol = empty_obj"
    using assms(2) by (simp add: stored_def)
  show ?thesis
    using merge_all_stored [OF assms(1), of P es st] q
    by (simp add: s e empty_obj_def)
qed

text \<open>
  The example of the specification, \<open>{bid: 1.10}\<close> and then \<open>{ask: 1.12}\<close> for GBPUSD,
  with a merge for another symbol in between and a delta whose bid is NaN at the end.
\<close>

theorem touchQuote_latest_finite_witness:
  "''GBPUSD'' \<noteq> [] \<and>
   map_of (quotes init_world) ''GBPUSD'' = None \<and>
   deltas_of ''GBPUSD'' gbpusd_merges \<noteq> [] \<and>
   (\<exists>q. map_of (quotes (merge_all example_platform gbpusd_merges init_world)) ''GBPUSD'' = Some q \<and>
        bid q = JNum (Fin (11 / 10)) \<and> ask q = JNum (Fin (28 / 25)) \<and> last_q q = JUndefined)"
proof -
  have a: "map_of (quotes init_world) ''GBPUSD'' = None"
    by (simp add: init_world_def)
  have d: "deltas_of ''GBPUSD'' gbpusd_merges =
     [\<lparr>bid = JNum (Fin (11 / 10)), ask = JUndefined, last_q = JUndefined, time = JUndefined\<rparr>,
      \<lparr>bid = JUndefined, ask = JNum (Fin (28 / 25)), last_q = JUndefined, time = JUndefined\<rparr>,
      \<lparr>bid = JNum NaN, ask = JUndefined, last_q = JUndefined, time = JUndefined\<rparr>]"
    by (simp add: deltas_of_def gbpusd_merges_def)
  show ?thesis
    using a touchQuote_latest_finite [of "''GBPUSD''" init_world gbpusd_merges example_platform]
    by (simp add: d latest_finite_def)
qed

lemma map_prices_update:
  "prices v = prices v' \<Longrightarrow>
   map (\<lambda>(k, q). (k, prices q)) (AList.update k0 v al)
     = map (\<lambda>(k, q). (k, prices q)) (AList.update k0 v' al)"
  by (induction al) auto

text \<open>
  C2. Apply the same delta twice to the same symbol. The store after the second
  application has the same symbols in the same order with the same \<open>bid\<close>, \<open>ask\<close> and
  \<open>last\<close> as after the first; the time of the symbol is the delta's time, or the clock
  reading of the second application when the delta's time is falsy.
\<close>

theorem touchQuote_idempotent:
  "map (\<lambda>(k, q). (k, prices q)) (quotes (touchQuote P symbol patch (touchQuote P symbol patch st)))
     = map (\<lambda>(k, q). (k, prices q)) (quotes (touchQuote P symbol patch st)) \<and>
   (symbol \<noteq> [] \<longrightarrow>
      time (stored (touchQuote P symbol patch (touchQuote P symbol patch st)) symbol)
        = js_or (time patch) (JNum (Fin (of_int (clock P (Suc (Suc (ticks st))))))))"
proof (cases "symbol = []")
  case True
  then show ?thesis by (simp add: touchQuote_empty_symbol)
next
  case False
  have "map (\<lambda>(k, q). (k, prices q))
          (quotes (touchQuote P symbol patch (touchQuote P symbol patch st)))
        = map (\<lambda>(k, q). (k, prices q)) (quotes (touchQuote P symbol patch st))"
    unfolding quotes_touchQuote [OF False, of P patch "touchQuote P symbol patch st"]
    unfolding stored_touchQuote [OF False] quotes_touchQuote [OF False, of P patch st]
    unfolding update_last
    by (rule map_prices_update) (simp add: prices_def)
  then show ?thesis
    using False by (simp add: stored_touchQuote ticks_touchQuote)
qed

theorem touchQuote_idempotent_witness:
  "map (\<lambda>(k, q). (k, prices q))
     (quotes (touchQuote example_platform ''EURUSD''
        \<lparr>bid = JNum (Fin (217 / 200)), ask = JUndefined, last_q = JUndefined, time = JNum (Fin 0)\<rparr>
        (touchQuote example_platform ''EURUSD''
           \<lparr>bid = JNum (Fin (217 / 200)), ask = JUndefined, last_q = JUndefined, time = JNum (Fin 0)\<rparr>
           init_world)))
     = [(''EURUSD'', JNum (Fin (217 / 200)), JUndefined, JUndefined)] \<and>
   ''EURUSD'' \<noteq> [] \<and>
   time (stored (touchQuote example_platform ''EURUSD''
        \<lparr>bid = JNum (Fin (217 / 200)), ask = JUndefined, last_q = JUndefined, time = JNum (Fin 0)\<rparr>
        (touchQuote example_platform ''EURUSD''
           \<lparr>bid = JNum (Fin (217 / 200)), ask = JUndefined, last_q = JUndefined, time = JNum (Fin 0)\<rparr>
           init_world)) ''EURUSD'')
     = JNum (Fin 1700000000002)"
  using touchQuote_idempotent [of example_platform "''EURUSD''"
      "\<lparr>bid = JNum (Fin (217 / 200)), ask = JUndefined, last_q = JUndefined, time = JNum (Fin 0)\<rparr>"
      init_world]
  by (simp add: quotes_touchQuote stored_def prices_def init_world_def empty_obj_def
      js_or_def example_platform_def)

text \<open>The Map keeps each symbol once.\<close>

lemma distinct_quotes_touchQuote:
  "distinct (map fst (quotes st)) \<Longrightarrow> distinct (map fst (quotes (touchQuote P symbol patch st)))"
  by (cases "symbol = []") (simp_all add: touchQuote_empty_symbol quotes_touchQuote distinct_update)

section \<open>Broadcast\<close>

lemma chan_deliver_other:
  "res sub \<noteq> r \<Longrightarrow> chan (deliver symbol line sub w) r = chan w r"
  by (simp add: deliver_def res_write_def)

lemma fold_deliver_other:
  "r \<notin> res ` set xs \<Longrightarrow> chan (fold (deliver symbol line) xs w) r = chan w r"
  by (induction xs arbitrary: w) (simp_all add: chan_deliver_other)

lemma chan_deliver_self:
  "chan (deliver symbol line sub w) (res sub) =
     (if accepted (filter_s sub) symbol then wrote line (chan w (res sub))
      else chan w (res sub))"
  by (simp add: deliver_def res_write_def accepted_def)

text \<open>
  The loop writes to the response of a registered subscriber once if its filter accepts
  the symbol and never otherwise, whatever the other subscribers are.
\<close>

lemma fold_deliver_member:
  "distinct (map res xs) \<Longrightarrow> sub \<in> set xs \<Longrightarrow>
   chan (fold (deliver symbol line) xs w) (res sub) =
     (if accepted (filter_s sub) symbol then wrote line (chan w (res sub))
      else chan w (res sub))"
proof (induction xs arbitrary: w)
  case Nil
  then show ?case by simp
next
  case (Cons x xs)
  show ?case
  proof (cases "x = sub")
    case True
    with Cons.prems have "res sub \<notin> res ` set xs" by simp
    then show ?thesis
      using True by (simp add: fold_deliver_other chan_deliver_self)
  next
    case False
    with Cons.prems have m: "sub \<in> set xs" and d: "distinct (map res xs)"
      and n: "res x \<noteq> res sub"
      by auto
    show ?thesis
      using Cons.IH [OF d m, of "deliver symbol line x w"] n
      by (simp add: chan_deliver_other)
  qed
qed

lemma chan_pushQuote_member:
  assumes "map_of (quotes st) symbol = Some q" and "sub \<in> set (subs st)"
    and "distinct (map res (subs st))"
  shows "chan (pushQuote P symbol st) (res sub) =
     (if accepted (filter_s sub) symbol
      then wrote (QuotesUpdate (clock P (ticks st)) symbol q) (chan st (res sub))
      else chan st (res sub))"
  using assms by (simp add: pushQuote_unfold fold_deliver_member)

text \<open>
  The registry is changed by the stream route and by the close listener only, and its
  response objects stay distinct when each request brings a new one.
\<close>

lemma subs_pushQuote: "subs (pushQuote P symbol st) = subs st"
  by (simp add: pushQuote_unfold fold_deliver_fields split: option.splits)

lemma timers_pushQuote: "timers (pushQuote P symbol st) = timers st"
  by (simp add: pushQuote_unfold fold_deliver_fields split: option.splits)

lemma subs_touchQuote: "subs (touchQuote P symbol patch st) = subs st"
  by (simp add: touchQuote_def Date_now_def Let_def subs_pushQuote)

lemma subs_quotes_stream:
  assumes "quotes_stream cfg P req r st = Inr (None, st')"
    and "r \<notin> res ` set (subs st)" and "distinct (map res (subs st))"
  shows "distinct (map res (subs st')) \<and> res ` set (subs st') = insert r (res ` set (subs st))"
proof -
  from assms(1) obtain fltr k where "subs st' = subs st @ [\<lparr>res = r, filter_s = fltr, ping = k\<rparr>]"
    by (auto simp: quotes_stream_def Let_def Date_now_def subs_res_write
        split: sum.splits if_splits)
  then show ?thesis
    using assms(2,3) by simp
qed

lemma subs_on_close:
  "distinct (map res (subs st)) \<Longrightarrow> distinct (map res (subs (on_close sub st)))"
  by (simp add: on_close_def distinct_map_filter removeAll_filter_not_eq)

text \<open>The example state, evaluated.\<close>

lemmas run_defs =
  after_stream_def quotes_stream_def checkToken_def default_config_def stream_request_def
  parseSymbolsParam_def js_or_def trim_def is_space_def collect_def Date_now_def
  res_write_def wrote_def init_world_def example_platform_def touchQuote_def pushQuote_def
  deliver_def empty_obj_def Let_def

lemma two_subscribers_subs:
  "subs two_subscribers =
     [\<lparr>res = 0, filter_s = {}, ping = 0\<rparr>, \<lparr>res = 1, filter_s = {''EURUSD''}, ping = 1\<rparr>]"
  by (simp add: two_subscribers_def run_defs)

lemma two_subscribers_timers: "timers two_subscribers = [0, 1]"
  by (simp add: two_subscribers_def run_defs)

lemma two_subscribers_quotes:
  "quotes two_subscribers =
     [(''EURUSD'', \<lparr>bid = JNum (Fin (217 / 200)), ask = JUndefined, last_q = JUndefined,
                    time = JNum (Fin 1700000000000)\<rparr>),
      (''GBPUSD'', \<lparr>bid = JNum (Fin (11 / 10)), ask = JUndefined, last_q = JUndefined,
                    time = JNum (Fin 1700000000000)\<rparr>)]"
  by (simp add: two_subscribers_def run_defs)

lemma two_subscribers_writable:
  "writable (chan two_subscribers 0) \<and> writable (chan two_subscribers 1)"
  by (simp add: two_subscribers_def run_defs)

lemma two_subscribers_clock: "clock example_platform (ticks two_subscribers) = 1700000000006"
  by (simp add: two_subscribers_def run_defs)

text \<open>
  C3. Broadcast the stored quote of a symbol. The program writes one update frame,
  carrying the clock reading, the symbol and the quote, to a registered subscriber if its
  filter is empty or holds the symbol, and writes nothing to it otherwise; the subscriber
  receives the frame if its connection is up. (Each subscriber has a response object of
  its own.)
\<close>

theorem pushQuote_filter:
  assumes "map_of (quotes st) symbol = Some q" and "sub \<in> set (subs st)"
    and "distinct (map res (subs st))"
  shows "written (chan (pushQuote P symbol st) (res sub)) =
           written (chan st (res sub))
           @ (if filter_s sub = {} \<or> symbol \<in> filter_s sub
              then [QuotesUpdate (clock P (ticks st)) symbol q] else []) \<and>
         received (chan (pushQuote P symbol st) (res sub)) =
           received (chan st (res sub))
           @ (if (filter_s sub = {} \<or> symbol \<in> filter_s sub) \<and> writable (chan st (res sub))
              then [QuotesUpdate (clock P (ticks st)) symbol q] else [])"
  using assms by (simp add: chan_pushQuote_member wrote_def accepted_def)

text \<open>
  In the example, the update for GBPUSD is not written to the subscriber of EURUSD and is
  written to the subscriber without filter.
\<close>

theorem pushQuote_filter_witness:
  "map_of (quotes two_subscribers) ''GBPUSD''
     = Some \<lparr>bid = JNum (Fin (11 / 10)), ask = JUndefined, last_q = JUndefined,
             time = JNum (Fin 1700000000000)\<rparr> \<and>
   \<lparr>res = 1, filter_s = {''EURUSD''}, ping = 1\<rparr> \<in> set (subs two_subscribers) \<and>
   \<lparr>res = 0, filter_s = {}, ping = 0\<rparr> \<in> set (subs two_subscribers) \<and>
   distinct (map res (subs two_subscribers)) \<and>
   written (chan (pushQuote example_platform ''GBPUSD'' two_subscribers) 1)
     = written (chan two_subscribers 1) \<and>
   written (chan (pushQuote example_platform ''GBPUSD'' two_subscribers) 0)
     = written (chan two_subscribers 0)
       @ [QuotesUpdate 1700000000006 ''GBPUSD''
            \<lparr>bid = JNum (Fin (11 / 10)), ask = JUndefined, last_q = JUndefined,
             time = JNum (Fin 1700000000000)\<rparr>] \<and>
   received (chan (pushQuote example_platform ''GBPUSD'' two_subscribers) 0)
     = received (chan two_subscribers 0)
       @ [QuotesUpdate 1700000000006 ''GBPUSD''
            \<lparr>bid = JNum (Fin (11 / 10)), ask = JUndefined, last_q = JUndefined,
             time = JNum (Fin 1700000000000)\<rparr>]"
proof -
  have q: "map_of (quotes two_subscribers) ''GBPUSD''
     = Some \<lparr>bid = JNum (Fin (11 / 10)), ask = JUndefined, last_q = JUndefined,
             time = JNum (Fin 1700000000000)\<rparr>"
    by (simp add: two_subscribers_quotes)
  have d: "distinct (map res (subs two_subscribers))"
    by (simp add: two_subscribers_subs)
  have m1: "\<lparr>res = 1, filter_s = {''EURUSD''}, ping = 1\<rparr> \<in> set (subs two_subscribers)"
    and m0: "\<lparr>res = 0, filter_s = {}, ping = 0\<rparr> \<in> set (subs two_subscribers)"
    by (simp_all add: two_subscribers_subs)
  show ?thesis
    using pushQuote_filter [OF q m1 d, of example_platform]
      pushQuote_filter [OF q m0 d, of example_platform] q d m1 m0
      two_subscribers_writable two_subscribers_clock
    by simp
qed

text \<open>
  C5, as stated, fails. Subscriber 0 of the example loses its connection; the next
  broadcast writes to it, the write fails, and afterwards the subscriber is still
  registered and its timer still runs.
\<close>

theorem pushQuote_keeps_failed_subscriber:
  "\<not> writable (chan (drop_connection 0 two_subscribers) 0) \<and>
   written (chan (pushQuote example_platform ''EURUSD'' (drop_connection 0 two_subscribers)) 0)
     = written (chan (drop_connection 0 two_subscribers) 0)
       @ [QuotesUpdate 1700000000006 ''EURUSD''
            \<lparr>bid = JNum (Fin (217 / 200)), ask = JUndefined, last_q = JUndefined,
             time = JNum (Fin 1700000000000)\<rparr>] \<and>
   received (chan (pushQuote example_platform ''EURUSD'' (drop_connection 0 two_subscribers)) 0)
     = received (chan (drop_connection 0 two_subscribers) 0) \<and>
   \<lparr>res = 0, filter_s = {}, ping = 0\<rparr>
     \<in> set (subs (pushQuote example_platform ''EURUSD'' (drop_connection 0 two_subscribers))) \<and>
   0 \<in> set (timers (pushQuote example_platform ''EURUSD'' (drop_connection 0 two_subscribers)))"
  using two_subscribers_clock
  by (simp add: pushQuote_unfold fold_deliver_fields drop_connection_def two_subscribers_subs
      two_subscribers_timers two_subscribers_quotes deliver_def res_write_def wrote_def)

text \<open>
  C5, amended. A broadcast changes neither the registry nor the timers. A subscriber
  whose filter accepts the symbol and whose own connection is up receives the update,
  whatever happens to the writes to the others. The listener of the request's close
  event is what removes a subscriber and cancels its timer.
\<close>

theorem pushQuote_isolates_failure:
  "subs (pushQuote P symbol st) = subs st \<and>
   timers (pushQuote P symbol st) = timers st \<and>
   (map_of (quotes st) symbol = Some q \<and> sub \<in> set (subs st) \<and>
    distinct (map res (subs st)) \<and> writable (chan st (res sub)) \<and>
    (filter_s sub = {} \<or> symbol \<in> filter_s sub) \<longrightarrow>
      received (chan (pushQuote P symbol st) (res sub))
        = received (chan st (res sub)) @ [QuotesUpdate (clock P (ticks st)) symbol q]) \<and>
   sub \<notin> set (subs (on_close sub st)) \<and>
   ping sub \<notin> set (timers (on_close sub st))"
proof -
  have "subs (pushQuote P symbol st) = subs st" "timers (pushQuote P symbol st) = timers st"
    by (simp_all add: subs_pushQuote timers_pushQuote)
  moreover have "sub \<notin> set (subs (on_close sub st))" "ping sub \<notin> set (timers (on_close sub st))"
    by (simp_all add: on_close_def)
  moreover have "received (chan (pushQuote P symbol st) (res sub))
        = received (chan st (res sub)) @ [QuotesUpdate (clock P (ticks st)) symbol q]"
    if "map_of (quotes st) symbol = Some q" "sub \<in> set (subs st)"
      "distinct (map res (subs st))" "writable (chan st (res sub))"
      "filter_s sub = {} \<or> symbol \<in> filter_s sub"
    using that by (simp add: chan_pushQuote_member wrote_def accepted_def)
  ultimately show ?thesis by blast
qed

text \<open>
  In the example, subscriber 1 receives the update for EURUSD although the write to
  subscriber 0 fails.
\<close>

theorem pushQuote_isolates_failure_witness:
  "map_of (quotes (drop_connection 0 two_subscribers)) ''EURUSD''
     = Some \<lparr>bid = JNum (Fin (217 / 200)), ask = JUndefined, last_q = JUndefined,
             time = JNum (Fin 1700000000000)\<rparr> \<and>
   \<lparr>res = 1, filter_s = {''EURUSD''}, ping = 1\<rparr> \<in> set (subs (drop_connection 0 two_subscribers)) \<and>
   distinct (map res (subs (drop_connection 0 two_subscribers))) \<and>
   writable (chan (drop_connection 0 two_subscribers) 1) \<and>
   \<not> writable (chan (drop_connection 0 two_subscribers) 0) \<and>
   ''EURUSD'' \<in> {''EURUSD''} \<and>
   received (chan (pushQuote example_platform ''EURUSD'' (drop_connection 0 two_subscribers)) 1)
     = received (chan (drop_connection 0 two_subscribers) 1)
       @ [QuotesUpdate 1700000000006 ''EURUSD''
            \<lparr>bid = JNum (Fin (217 / 200)), ask = JUndefined, last_q = JUndefined,
             time = JNum (Fin 1700000000000)\<rparr>] \<and>
   subs (pushQuote example_platform ''EURUSD'' (drop_connection 0 two_subscribers))
     = subs (drop_connection 0 two_subscribers)"
  using pushQuote_isolates_failure [of example_platform "''EURUSD''"
      "drop_connection 0 two_subscribers"
      "\<lparr>bid = JNum (Fin (217 / 200)), ask = JUndefined, last_q = JUndefined,
           time = JNum (Fin 1700000000000)\<rparr>"
      "\<lparr>res = 1, filter_s = {''EURUSD''}, ping = 1\<rparr>"]
    two_subscribers_clock two_subscribers_writable
  by (simp add: drop_connection_def two_subscribers_subs two_subscribers_quotes)

section \<open>The normaliser\<close>

lemma walk_single:
  "walk obj [k] = (if truthy obj \<and> has_own obj k then own_prop obj k else JUndefined)"
  by simp

lemma split_on_no_sep: "c \<notin> set s \<Longrightarrow> split_on c s = [s]"
  by (induction s) auto

lemma first_undefined:
  "(\<And>p. p \<in> set ps \<Longrightarrow>
      walk obj (split_on CHR ''.'' p) = JUndefined \<or>
      walk obj (split_on CHR ''.'' p) = JNull \<or>
      walk obj (split_on CHR ''.'' p) = JStr []) \<Longrightarrow>
   first obj ps = JUndefined"
  by (induction ps) (auto simp: Let_def)

lemma symbol_keys_plain: "k \<in> set symbol_keys \<Longrightarrow> split_on CHR ''.'' k = [k]"
  by (rule split_on_no_sep) (auto simp: symbol_keys_def)

text \<open>
  When the payload of an event has no symbol alias with a value other than \<open>undefined\<close>,
  \<open>null\<close> and the empty string, \<open>processQuoteLikeEvent\<close> returns normally and leaves the
  whole state as it was.
\<close>

lemma no_symbol_no_output:
  assumes "\<forall>k \<in> set symbol_keys.
             \<not> has_own (quote_src m) k \<or> own_prop (quote_src m) k = JUndefined \<or>
             own_prop (quote_src m) k = JNull \<or> own_prop (quote_src m) k = JStr []"
  shows "processQuoteLikeEvent P m st = Inr st"
proof -
  have "first (quote_src m) symbol_keys = JUndefined"
  proof (rule first_undefined)
    fix p assume p: "p \<in> set symbol_keys"
    with assms show "walk (quote_src m) (split_on CHR ''.'' p) = JUndefined \<or>
      walk (quote_src m) (split_on CHR ''.'' p) = JNull \<or>
      walk (quote_src m) (split_on CHR ''.'' p) = JStr []"
      by (auto simp: symbol_keys_plain [OF p])
  qed
  then show ?thesis
    by (simp add: processQuoteLikeEvent_def js_or_def)
qed

lemma no_symbol_no_output_example:
  "processQuoteLikeEvent example_platform
     (JObj [(''type'', JStr ''NEWS''), (''symbol'', JStr [])]) two_subscribers
     = Inr two_subscribers"
proof -
  have h: "\<forall>k \<in> set symbol_keys.
      \<not> has_own (quote_src (JObj [(''type'', JStr ''NEWS''), (''symbol'', JStr [])])) k \<or>
      own_prop (quote_src (JObj [(''type'', JStr ''NEWS''), (''symbol'', JStr [])])) k = JUndefined \<or>
      own_prop (quote_src (JObj [(''type'', JStr ''NEWS''), (''symbol'', JStr [])])) k = JNull \<or>
      own_prop (quote_src (JObj [(''type'', JStr ''NEWS''), (''symbol'', JStr [])])) k = JStr []"
    by (simp add: symbol_keys_def quote_src_def opt_get_def js_or_def)
  show ?thesis
    using no_symbol_no_output [OF h, of example_platform two_subscribers] .
qed

text \<open>
  For such an event the listener, if the conversion of the type to a string returns,
  records the time of the event and does nothing else: no quote is stored, nothing is
  written to any subscriber, and no exception is raised, whether the event counts as
  quote-like or not.
\<close>

lemma on_stream_no_symbol:
  assumes "\<forall>k \<in> set symbol_keys.
             \<not> has_own (quote_src m) k \<or> own_prop (quote_src m) k = JUndefined \<or>
             own_prop (quote_src m) k = JNull \<or> own_prop (quote_src m) k = JStr []"
    and "ToString P (js_or (opt_get m ''type'') (JStr [])) = Inr s"
  shows "on_stream P m st
           = Inr (st\<lparr>ticks := Suc (ticks st), lastBrandEventAt := clock P (ticks st)\<rparr>)"
  using assms(2) no_symbol_no_output [OF assms(1)]
  by (simp add: on_stream_def Date_now_def Let_def)

lemma on_stream_news:
  "on_stream example_platform (JObj [(''type'', JStr ''NEWS'')]) two_subscribers
     = Inr (two_subscribers\<lparr>ticks := Suc (ticks two_subscribers),
                             lastBrandEventAt := clock example_platform (ticks two_subscribers)\<rparr>)"
proof -
  have h: "\<forall>k \<in> set symbol_keys.
      \<not> has_own (quote_src (JObj [(''type'', JStr ''NEWS'')])) k \<or>
      own_prop (quote_src (JObj [(''type'', JStr ''NEWS'')])) k = JUndefined \<or>
      own_prop (quote_src (JObj [(''type'', JStr ''NEWS'')])) k = JNull \<or>
      own_prop (quote_src (JObj [(''type'', JStr ''NEWS'')])) k = JStr []"
    by (simp add: symbol_keys_def quote_src_def opt_get_def js_or_def)
  have t: "ToString example_platform
             (js_or (opt_get (JObj [(''type'', JStr ''NEWS'')]) ''type'') (JStr [])) = Inr ''NEWS''"
    by (simp add: opt_get_def js_or_def)
  show ?thesis
    using on_stream_no_symbol [OF h t] .
qed

text \<open>
  C9. The claim fails for an event without symbol whose type is an object with a member
  \<open>toString\<close>: no symbol alias resolves, and the listener throws at the conversion of the
  type, before \<open>processQuoteLikeEvent\<close> is reached.
\<close>

theorem type_with_toString_member_throws:
  "first (quote_src type_toString_event) symbol_keys = JUndefined \<and>
   on_stream P type_toString_event st = Inl TypeError"
  by (simp add: on_stream_def type_toString_event_def quote_src_def opt_get_def js_or_def
      symbol_keys_def Date_now_def)

text \<open>An event whose symbol and numeric conversions do not throw reaches \<open>touchQuote\<close>.\<close>

lemma finite_or_undefined_n:
  "finite_or_undefined (if isFinite (JNum x) then x else NaN) = finite_or_undefined x"
  by (simp add: finite_or_undefined_def)

lemma processQuoteLikeEvent_runs:
  assumes "ToString P (js_or (first (quote_src m) symbol_keys) (JStr [])) = Inr symbol"
    and "symbol \<noteq> []"
    and "ToNumber P (first (quote_src m) bid_keys) = Inr b"
    and "ToNumber P (first (quote_src m) ask_keys) = Inr a"
    and "ToNumber P (first (quote_src m) last_keys) = Inr l"
    and "ToNumber P (first (quote_src m) time_keys) = Inr t"
  shows "processQuoteLikeEvent P m st =
           Inr (touchQuote P symbol
                  \<lparr>bid = finite_or_undefined b, ask = finite_or_undefined a,
                   last_q = finite_or_undefined l,
                   time = (if truthy (JNum t) then JNum t
                           else JNum (Fin (of_int (clock P (ticks st)))))\<rparr>
                  (if truthy (JNum t) then st else st\<lparr>ticks := Suc (ticks st)\<rparr>))"
  using assms
  by (simp add: processQuoteLikeEvent_def n_js_def finite_or_undefined_n Date_now_def)

lemma stored_ticks: "stored (st\<lparr>ticks := k\<rparr>) symbol = stored st symbol"
  by (simp add: stored_def)

text \<open>
  The price fields after such an event: a field whose value converts to NaN or to an
  infinity keeps what was stored (\<open>undefined\<close> for a new symbol), and a field that
  converts to a finite number, zero included, is stored as that number.
\<close>

lemma non_finite_field_absent:
  assumes "ToString P (js_or (first (quote_src m) symbol_keys) (JStr [])) = Inr symbol"
    and "symbol \<noteq> []"
    and "ToNumber P (first (quote_src m) bid_keys) = Inr b"
    and "ToNumber P (first (quote_src m) ask_keys) = Inr a"
    and "ToNumber P (first (quote_src m) last_keys) = Inr l"
    and "ToNumber P (first (quote_src m) time_keys) = Inr t"
  shows "\<exists>st'. processQuoteLikeEvent P m st = Inr st' \<and>
           bid (stored st' symbol) = (if isFinite (JNum b) then JNum b else bid (stored st symbol)) \<and>
           ask (stored st' symbol) = (if isFinite (JNum a) then JNum a else ask (stored st symbol)) \<and>
           last_q (stored st' symbol)
             = (if isFinite (JNum l) then JNum l else last_q (stored st symbol))"
  unfolding processQuoteLikeEvent_runs [OF assms]
  using assms(2) by (simp add: stored_touchQuote finite_or_undefined_def stored_ticks)

text \<open>
  The example of the specification: the quote nested under \<open>quote\<close>, with the bid
  \<open>"1.0850"\<close>, the ask 1.0852 and neither last nor time, is stored with both prices as
  numbers, no last, and the clock reading as its time.
\<close>

lemma quote_event_stored:
  "map_sum id (\<lambda>w. map_of (quotes w) ''EURUSD'')
     (processQuoteLikeEvent example_platform quote_event init_world)
     = Inr (Some \<lparr>bid = JNum (Fin (217 / 200)), ask = JNum (Fin (2713 / 2500)),
                  last_q = JUndefined, time = JNum (Fin 1700000000000)\<rparr>)"
proof -
  have s: "quote_src quote_event
           = JObj [(''symbol'', JStr ''EURUSD''), (''bid'', JStr ''1.0850''),
                   (''ask'', JNum (Fin (2713 / 2500)))]"
    by (simp add: quote_src_def quote_event_def opt_get_def js_or_def)
  have n: "StringToNumber example_platform ''1.0850'' = Fin (217 / 200)"
    by (simp add: example_platform_def exact_StringToNumber_def trim_def is_space_def
        unsigned_decimal_def is_digit_def exponent_part_def decimal_value_def)
  have y: "ToString example_platform (js_or (first (quote_src quote_event) symbol_keys) (JStr []))
     = Inr ''EURUSD''"
    by (simp add: s symbol_keys_def js_or_def)
  have b: "ToNumber example_platform (first (quote_src quote_event) bid_keys)
     = Inr (Fin (217 / 200))"
    by (simp add: s bid_keys_def n)
  have a: "ToNumber example_platform (first (quote_src quote_event) ask_keys)
     = Inr (Fin (2713 / 2500))"
    by (simp add: s ask_keys_def)
  have l: "ToNumber example_platform (first (quote_src quote_event) last_keys) = Inr NaN"
    by (simp add: s last_keys_def)
  have t: "ToNumber example_platform (first (quote_src quote_event) time_keys) = Inr NaN"
    by (simp add: s time_keys_def)
  have e: "''EURUSD'' \<noteq> []" by simp
  have c: "clock example_platform (ticks init_world) = 1700000000000"
    by (simp add: example_platform_def init_world_def)
  have i: "stored (init_world\<lparr>ticks := Suc (ticks init_world)\<rparr>) ''EURUSD'' = empty_obj"
    by (simp add: stored_def init_world_def)
  show ?thesis
    unfolding processQuoteLikeEvent_runs [OF y e b a l t]
    by (simp add: quotes_touchQuote update_conv' finite_or_undefined_def c i empty_obj_def
        js_or_def)
qed

text \<open>
  C4. The claim fails for a field value that is an object with a member \<open>toString\<close>:
  \<open>Number\<close> throws for it, the exception leaves \<open>processQuoteLikeEvent\<close>, and the event is
  not merged.
\<close>

theorem bid_with_toString_member_throws:
  "processQuoteLikeEvent P toString_event st = Inl TypeError"
  by (simp add: processQuoteLikeEvent_def toString_event_def quote_src_def opt_get_def
      js_or_def symbol_keys_def bid_keys_def n_js_def)

text \<open>
  C7, as stated, fails: the upstream time 0 is a number, and the stored time is the clock
  reading.
\<close>

theorem zero_time_replaced_by_clock:
  "first (quote_src zero_time_event) time_keys = JNum (Fin 0) \<and>
   map_sum id (\<lambda>w. stored w ''EURUSD'')
     (processQuoteLikeEvent example_platform zero_time_event init_world)
     = Inr \<lparr>bid = JNum (Fin (217 / 200)), ask = JUndefined, last_q = JUndefined,
            time = JNum (Fin 1700000000000)\<rparr>"
proof -
  have s: "quote_src zero_time_event = zero_time_event"
    by (simp add: quote_src_def zero_time_event_def opt_get_def js_or_def)
  have f: "first zero_time_event symbol_keys = JStr ''EURUSD''"
    "first zero_time_event bid_keys = JStr ''1.0850''"
    "first zero_time_event ask_keys = JUndefined"
    "first zero_time_event last_keys = JUndefined"
    "first zero_time_event time_keys = JNum (Fin 0)"
    by (simp_all add: zero_time_event_def symbol_keys_def bid_keys_def ask_keys_def
        last_keys_def time_keys_def)
  have n: "StringToNumber example_platform ''1.0850'' = Fin (217 / 200)"
    by (simp add: example_platform_def exact_StringToNumber_def trim_def is_space_def
        unsigned_decimal_def is_digit_def exponent_part_def decimal_value_def)
  have c: "clock example_platform 0 = 1700000000000" and t: "ticks init_world = 0"
    by (simp_all add: example_platform_def init_world_def)
  have p: "processQuoteLikeEvent example_platform zero_time_event init_world
        = Inr (touchQuote example_platform ''EURUSD''
                 \<lparr>bid = JNum (Fin (217 / 200)), ask = JUndefined, last_q = JUndefined,
                  time = JNum (Fin 1700000000000)\<rparr> (init_world\<lparr>ticks := Suc 0\<rparr>))"
    by (simp add: processQuoteLikeEvent_def s f n c t js_or_def n_js_def
        finite_or_undefined_def Date_now_def)
  have e: "stored (init_world\<lparr>ticks := Suc 0\<rparr>) ''EURUSD'' = empty_obj"
    by (simp add: stored_def init_world_def)
  have r: "stored (touchQuote example_platform ''EURUSD''
                 \<lparr>bid = JNum (Fin (217 / 200)), ask = JUndefined, last_q = JUndefined,
                  time = JNum (Fin 1700000000000)\<rparr> (init_world\<lparr>ticks := Suc 0\<rparr>)) ''EURUSD''
           = \<lparr>bid = JNum (Fin (217 / 200)), ask = JUndefined, last_q = JUndefined,
              time = JNum (Fin 1700000000000)\<rparr>"
    by (simp add: stored_touchQuote e empty_obj_def js_or_def)
  show ?thesis
    by (simp add: s f p r)
qed

text \<open>
  C7, amended. \<open>touchQuote\<close> stores the time of the patch when that is truthy and its own
  clock reading otherwise. \<open>processQuoteLikeEvent\<close> stores the upstream time converted to a
  number when the number is neither NaN nor 0, and a clock reading otherwise.
\<close>

theorem stored_time:
  assumes "ToString P (js_or (first (quote_src m) symbol_keys) (JStr [])) = Inr symbol"
    and "symbol \<noteq> []"
    and "ToNumber P (first (quote_src m) bid_keys) = Inr b"
    and "ToNumber P (first (quote_src m) ask_keys) = Inr a"
    and "ToNumber P (first (quote_src m) last_keys) = Inr l"
    and "ToNumber P (first (quote_src m) time_keys) = Inr t"
  shows "time (stored (touchQuote P symbol patch st) symbol)
           = js_or (time patch) (JNum (Fin (of_int (clock P (ticks st))))) \<and>
         (\<exists>st'. processQuoteLikeEvent P m st = Inr st' \<and>
            time (stored st' symbol) =
              (if truthy (JNum t) then JNum t
               else if clock P (ticks st) \<noteq> 0 then JNum (Fin (of_int (clock P (ticks st))))
               else JNum (Fin (of_int (clock P (Suc (ticks st)))))))"
  unfolding processQuoteLikeEvent_runs [OF assms]
  using assms(2) by (simp add: stored_touchQuote js_or_def)

text \<open>
  The example of the specification: the quote is nested under \<open>quote\<close>, its bid is a
  string, and it has no time, so the stored time is the clock reading.
\<close>

theorem stored_time_witness:
  "ToString example_platform (js_or (first (quote_src quote_event) symbol_keys) (JStr []))
     = Inr ''EURUSD'' \<and>
   ''EURUSD'' \<noteq> [] \<and>
   ToNumber example_platform (first (quote_src quote_event) bid_keys) = Inr (Fin (217 / 200)) \<and>
   ToNumber example_platform (first (quote_src quote_event) ask_keys) = Inr (Fin (2713 / 2500)) \<and>
   ToNumber example_platform (first (quote_src quote_event) last_keys) = Inr NaN \<and>
   ToNumber example_platform (first (quote_src quote_event) time_keys) = Inr NaN \<and>
   (\<exists>st'. processQuoteLikeEvent example_platform quote_event init_world = Inr st' \<and>
      time (stored st' ''EURUSD'') = JNum (Fin 1700000000000))"
proof -
  have s: "quote_src quote_event
           = JObj [(''symbol'', JStr ''EURUSD''), (''bid'', JStr ''1.0850''),
                   (''ask'', JNum (Fin (2713 / 2500)))]"
    by (simp add: quote_src_def quote_event_def opt_get_def js_or_def)
  have n: "StringToNumber example_platform ''1.0850'' = Fin (217 / 200)"
    by (simp add: example_platform_def exact_StringToNumber_def trim_def is_space_def
        unsigned_decimal_def is_digit_def exponent_part_def decimal_value_def)
  have y: "ToString example_platform (js_or (first (quote_src quote_event) symbol_keys) (JStr []))
     = Inr ''EURUSD''"
    by (simp add: s symbol_keys_def js_or_def)
  have b: "ToNumber example_platform (first (quote_src quote_event) bid_keys)
     = Inr (Fin (217 / 200))"
    by (simp add: s bid_keys_def n)
  have a: "ToNumber example_platform (first (quote_src quote_event) ask_keys)
     = Inr (Fin (2713 / 2500))"
    by (simp add: s ask_keys_def)
  have l: "ToNumber example_platform (first (quote_src quote_event) last_keys) = Inr NaN"
    by (simp add: s last_keys_def)
  have t: "ToNumber example_platform (first (quote_src quote_event) time_keys) = Inr NaN"
    by (simp add: s time_keys_def)
  have e: "''EURUSD'' \<noteq> []" by simp
  have c: "clock example_platform (ticks init_world) = 1700000000000"
    by (simp add: example_platform_def init_world_def)
  show ?thesis
    using stored_time [OF y e b a l t, of empty_obj init_world] y b a l t c
    by simp
qed

section \<open>The watchdog\<close>

text \<open>
  C6. The watchdog ends the process exactly when the threshold is truthy, the socket is
  not connected, and the clock reading minus \<open>lastBrandEventAt\<close> is greater than the
  threshold. With the threshold 120000 and the socket down it fires at an age of 121000
  and not at 119000; with the threshold 0 it never fires.
\<close>

theorem watchdog_fires:
  "(watchdog cfg P st = Inl (Exit 1) \<longleftrightarrow>
      truthy (JNum (STALE_MS cfg)) \<and> \<not> connected st \<and>
      js_gt (Fin (of_int (clock P (ticks st) - lastBrandEventAt st))) (STALE_MS cfg)) \<and>
   (STALE_MS cfg = Fin 120000 \<and> \<not> connected st \<and>
    clock P (ticks st) - lastBrandEventAt st = 121000 \<longrightarrow> watchdog cfg P st = Inl (Exit 1)) \<and>
   (STALE_MS cfg = Fin 120000 \<and>
    clock P (ticks st) - lastBrandEventAt st = 119000 \<longrightarrow> watchdog cfg P st \<noteq> Inl (Exit 1)) \<and>
   (STALE_MS cfg = Fin 0 \<longrightarrow> watchdog cfg P st \<noteq> Inl (Exit 1))"
  by (simp add: watchdog_def Date_now_def Let_def)

theorem watchdog_fires_witness:
  "STALE_MS default_config = Fin 120000 \<and>
   \<not> connected (stale_world 121000) \<and>
   clock example_platform (ticks (stale_world 121000)) - lastBrandEventAt (stale_world 121000)
     = 121000 \<and>
   watchdog default_config example_platform (stale_world 121000) = Inl (Exit 1) \<and>
   \<not> connected (stale_world 119000) \<and>
   clock example_platform (ticks (stale_world 119000)) - lastBrandEventAt (stale_world 119000)
     = 119000 \<and>
   watchdog default_config example_platform (stale_world 119000) \<noteq> Inl (Exit 1) \<and>
   watchdog (default_config\<lparr>STALE_MS := Fin 0\<rparr>) example_platform (stale_world 121000)
     \<noteq> Inl (Exit 1)"
  using watchdog_fires [of default_config example_platform "stale_world 121000"]
    watchdog_fires [of default_config example_platform "stale_world 119000"]
    watchdog_fires [of "default_config\<lparr>STALE_MS := Fin 0\<rparr>" example_platform "stale_world 121000"]
  by (simp add: default_config_def stale_world_def init_world_def example_platform_def)

section \<open>The routes\<close>

lemma set_tokens:
  "{t \<in> trim ` set (split_on CHR '','' s). t \<noteq> []} = tokens s"
  by (auto simp: tokens_def)

lemma text_twice: "ToString P (js_or (JStr s) (JStr [])) = Inr s"
  by (cases "s = []") (simp_all add: js_or_def)

lemma parseSymbolsParam_text:
  "parseSymbolsParam P q = map_sum id tokens (param_text P q)"
proof (cases "\<exists>xs. q = JArr xs")
  case True
  then obtain xs where q: "q = JArr xs" ..
  show ?thesis
  proof (cases "ToString P (JArr xs)")
    case (Inl e)
    then show ?thesis by (simp add: q parseSymbolsParam_def param_text_def)
  next
    case (Inr j)
    then show ?thesis
      using text_twice [of P j]
      by (simp add: q parseSymbolsParam_def param_text_def set_tokens del: ToString.simps)
  qed
next
  case False
  have t: "ToString P (js_or q (JStr [])) = (if truthy q then ToString P q else Inr [])"
    by (simp add: js_or_def)
  have p: "parseSymbolsParam P q
           = (case ToString P (js_or q (JStr [])) of Inl e \<Rightarrow> Inl e | Inr s \<Rightarrow> Inr (tokens s))"
    using False by (cases q) (simp_all add: parseSymbolsParam_def set_tokens cong: sum.case_cong)
  have x: "param_text P q = (if truthy q then ToString P q else Inr [])"
    using False by (cases q) (simp_all add: param_text_def)
  show ?thesis
    unfolding p x t by (cases "ToString P q") simp_all
qed

lemma join_strings:
  "sequence_err (map ((\<lambda>x. if x = JUndefined \<or> x = JNull then Inr [] else ToString P x) \<circ> JStr)
                   ss) = Inr ss"
  by (induction ss) simp_all

lemma param_text_cases:
  "param_text P (JStr s) = Inr s"
  "param_text P (JArr (map JStr ss)) = Inr (join_comma ss)"
  "param_text P JUndefined = Inr []"
  by (simp_all add: param_text_def join_strings)

lemma tokens_blank:
  assumes "list_all is_space s"
  shows "tokens s = {}"
proof -
  have "\<not> is_space CHR '',''" by (simp add: is_space_def)
  with assms have "CHR '','' \<notin> set s" by (auto simp: list_all_iff)
  then have p: "split_on CHR '','' s = [s]"
    by (induction s) auto
  have d: "dropWhile is_space s = []"
    using assms by (simp add: list_all_iff)
  have "trim s = []"
    unfolding trim_def d by simp
  then show ?thesis
    by (simp add: tokens_def p)
qed

text \<open>
  C10. For every value of the parameter, the filter is the set of the tokens of its text.
  In particular: for a string, the set of its tokens; for an array of strings, the set of
  the tokens of the strings joined with commas; for a missing parameter, and for a string
  of white space only (the empty string included), the empty set.
\<close>

theorem parseSymbolsParam_tokens:
  "parseSymbolsParam P q = map_sum id tokens (param_text P q) \<and>
   parseSymbolsParam P (JStr s) = Inr (tokens s) \<and>
   parseSymbolsParam P (JArr (map JStr ss)) = Inr (tokens (join_comma ss)) \<and>
   parseSymbolsParam P JUndefined = Inr {} \<and>
   (list_all is_space s \<longrightarrow> parseSymbolsParam P (JStr s) = Inr {})"
proof -
  have "tokens [] = {}"
    by (simp add: tokens_blank)
  then show ?thesis
    by (simp add: parseSymbolsParam_text param_text_cases tokens_blank)
qed

lemma tokens_example: "tokens '' EURUSD, ,GBPUSD,'' = {''EURUSD'', ''GBPUSD''}"
  by (auto simp: tokens_def trim_def is_space_def)

theorem parseSymbolsParam_tokens_witness:
  "parseSymbolsParam example_platform (JStr '' EURUSD, ,GBPUSD,'') = Inr {''EURUSD'', ''GBPUSD''} \<and>
   parseSymbolsParam example_platform (JArr (map JStr [''EURUSD '', ''GBPUSD,USDJPY'']))
     = Inr {''EURUSD'', ''GBPUSD'', ''USDJPY''} \<and>
   param_text example_platform (JArr [JStr ''EURUSD'', JNull, JArr [JStr ''GBPUSD'']])
     = Inr ''EURUSD,,GBPUSD'' \<and>
   parseSymbolsParam example_platform (JArr [JStr ''EURUSD'', JNull, JArr [JStr ''GBPUSD'']])
     = Inr {''EURUSD'', ''GBPUSD''} \<and>
   list_all is_space ''  '' \<and>
   parseSymbolsParam example_platform (JStr ''  '') = Inr {}"
proof -
  have b: "list_all is_space ''  ''" by (simp add: is_space_def)
  have j: "param_text example_platform (JArr [JStr ''EURUSD'', JNull, JArr [JStr ''GBPUSD'']])
     = Inr ''EURUSD,,GBPUSD''"
    by (simp add: param_text_def)
  have t: "tokens (join_comma [''EURUSD '', ''GBPUSD,USDJPY'']) = {''EURUSD'', ''GBPUSD'', ''USDJPY''}"
    "tokens ''EURUSD,,GBPUSD'' = {''EURUSD'', ''GBPUSD''}"
    by (auto simp: tokens_def trim_def is_space_def)
  have 1: "parseSymbolsParam example_platform (JStr '' EURUSD, ,GBPUSD,'')
           = Inr {''EURUSD'', ''GBPUSD''}"
    and 2: "parseSymbolsParam example_platform (JArr (map JStr [''EURUSD '', ''GBPUSD,USDJPY'']))
            = Inr {''EURUSD'', ''GBPUSD'', ''USDJPY''}"
    and 3: "parseSymbolsParam example_platform
              (JArr [JStr ''EURUSD'', JNull, JArr [JStr ''GBPUSD'']])
            = Inr {''EURUSD'', ''GBPUSD''}"
    using parseSymbolsParam_tokens [of example_platform
        "JArr [JStr ''EURUSD'', JNull, JArr [JStr ''GBPUSD'']]" "'' EURUSD, ,GBPUSD,''"
        "[''EURUSD '', ''GBPUSD,USDJPY'']"]
    by (simp_all only: tokens_example t j map_sum.simps id_apply)
  have 4: "parseSymbolsParam example_platform (JStr ''  '') = Inr {}"
    using parseSymbolsParam_tokens [of example_platform JUndefined "''  ''" "[]"] b
    by blast
  show ?thesis
    using 1 2 3 4 b j by blast
qed

text \<open>
  The snapshot of a store that does not hold the symbol \<open>__proto__\<close>: the reply has the
  quote of every stored symbol that the filter accepts and of no other, the count is
  their number, and the store is not changed.
\<close>

lemma distinct_obj_set:
  "distinct (map fst out) \<Longrightarrow> distinct (map fst (obj_set out s q))"
  by (simp add: obj_set_def distinct_update)

lemma map_of_obj_set:
  "map_of (obj_set out s q) k =
     (if s \<noteq> ''__proto__'' \<and> k = s then Some q else map_of out k)"
  by (simp add: obj_set_def update_conv')

lemma fold_collect:
  "distinct (map fst qs) \<Longrightarrow> distinct (map fst acc) \<Longrightarrow>
   distinct (map fst (fold (\<lambda>(s, q) out. if fltr \<noteq> {} \<and> s \<notin> fltr then out else obj_set out s q)
                        qs acc)) \<and>
   map_of (fold (\<lambda>(s, q) out. if fltr \<noteq> {} \<and> s \<notin> fltr then out else obj_set out s q) qs acc) k
     = (if k \<noteq> ''__proto__'' \<and> accepted fltr k \<and> map_of qs k \<noteq> None then map_of qs k
        else map_of acc k)"
proof (induction qs arbitrary: acc)
  case Nil
  then show ?case by simp
next
  case (Cons e qs)
  obtain s q where e: "e = (s, q)" by (cases e)
  from Cons.prems e have d: "distinct (map fst qs)" and n: "s \<notin> fst ` set qs"
    by auto
  from n have m: "map_of qs s = None"
    by (simp add: map_of_eq_None_iff)
  let ?acc = "if fltr \<noteq> {} \<and> s \<notin> fltr then acc else obj_set acc s q"
  have da: "distinct (map fst ?acc)"
    using Cons.prems(2) by (simp add: distinct_obj_set)
  show ?case
    using Cons.IH [OF d da] m
    by (auto simp: e map_of_obj_set accepted_def)
qed

lemma collect_lookup:
  assumes "distinct (map fst qs)"
  shows "distinct (map fst (collect fltr qs))"
    and "map_of (collect fltr qs) k =
           (if k \<noteq> ''__proto__'' \<and> accepted fltr k then map_of qs k else None)"
  using fold_collect [OF assms, of "[]" fltr k]
  by (auto simp: collect_def)

lemma collect_length:
  assumes "distinct (map fst qs)"
  shows "length (collect fltr qs)
           = card {k \<in> fst ` set qs. k \<noteq> ''__proto__'' \<and> accepted fltr k}"
proof -
  have "length (collect fltr qs) = card (fst ` set (collect fltr qs))"
    using collect_lookup(1) [OF assms, of fltr]
    by (metis distinct_card length_map set_map)
  also have "fst ` set (collect fltr qs) = dom (map_of (collect fltr qs))"
    by (simp add: dom_map_of_conv_image_fst)
  also have "\<dots> = {k \<in> dom (map_of qs). k \<noteq> ''__proto__'' \<and> accepted fltr k}"
    by (auto simp: collect_lookup(2) [OF assms] dom_def split: if_splits)
  also have "\<dots> = {k \<in> fst ` set qs. k \<noteq> ''__proto__'' \<and> accepted fltr k}"
    by (simp add: dom_map_of_conv_image_fst)
  finally show ?thesis .
qed

lemma quotes_state_snapshot:
  assumes "checkToken cfg P req = Inr True"
    and "parseSymbolsParam P (js_or (query_symbols req) (query_symbols_arr req)) = Inr fltr"
    and "distinct (map fst (quotes st))"
    and "''__proto__'' \<notin> fst ` set (quotes st)"
  shows "\<exists>out st'. quotes_state cfg P req st
                     = Inr (StateJson (clock P (ticks st)) (length out) out, st') \<and>
           (\<forall>k. map_of out k = (if accepted fltr k then map_of (quotes st) k else None)) \<and>
           length out = card {k \<in> fst ` set (quotes st). accepted fltr k} \<and>
           quotes st' = quotes st"
proof -
  have p: "map_of (quotes st) ''__proto__'' = None"
    using assms(4) by (simp add: map_of_eq_None_iff)
  have "{k \<in> fst ` set (quotes st). k \<noteq> ''__proto__'' \<and> accepted fltr k}
        = {k \<in> fst ` set (quotes st). accepted fltr k}"
    using assms(4) by force
  then have l: "length (collect fltr (quotes st))
           = card {k \<in> fst ` set (quotes st). accepted fltr k}"
    using collect_length [OF assms(3), of fltr] by simp
  have m: "map_of (collect fltr (quotes st)) k
           = (if accepted fltr k then map_of (quotes st) k else None)" for k
    using p by (simp add: collect_lookup(2) [OF assms(3)])
  show ?thesis
    using assms(1,2) l m
    by (simp add: quotes_state_def Date_now_def Let_def)
qed

text \<open>
  C8. The claim fails for a store that holds the symbol \<open>__proto__\<close>, which one upstream
  event puts there: the snapshot without filter then has no entry and the count 0.
\<close>

theorem snapshot_omits_proto:
  "processQuoteLikeEvent example_platform proto_event init_world = Inr proto_world \<and>
   map fst (quotes proto_world) = [''__proto__''] \<and>
   map_sum id fst (quotes_state default_config example_platform (stream_request JUndefined)
                     proto_world)
     = Inr (StateJson 1700000000003 0 [])"
proof -
  have s: "quote_src proto_event = proto_event"
    by (simp add: quote_src_def proto_event_def opt_get_def js_or_def)
  have f: "first proto_event symbol_keys = JStr ''__proto__''"
    "first proto_event bid_keys = JNum (Fin 1)"
    "first proto_event ask_keys = JUndefined"
    "first proto_event last_keys = JUndefined"
    "first proto_event time_keys = JUndefined"
    by (simp_all add: proto_event_def symbol_keys_def bid_keys_def ask_keys_def
        last_keys_def time_keys_def)
  have c: "clock example_platform 0 = 1700000000000" and t: "ticks init_world = 0"
    by (simp_all add: example_platform_def init_world_def)
  have p: "processQuoteLikeEvent example_platform proto_event init_world = Inr proto_world"
    by (simp add: processQuoteLikeEvent_def s f c t js_or_def n_js_def
        finite_or_undefined_def Date_now_def proto_world_def)
  have q: "quotes proto_world =
             [(''__proto__'', \<lparr>bid = JNum (Fin 1), ask = JUndefined, last_q = JUndefined,
                              time = JNum (Fin 1700000000000)\<rparr>)]"
    by (simp add: proto_world_def quotes_touchQuote stored_def init_world_def empty_obj_def
        js_or_def)
  have k: "ticks proto_world = 3"
    by (simp add: proto_world_def ticks_touchQuote init_world_def)
  have r: "map_sum id fst (quotes_state default_config example_platform
             (stream_request JUndefined) proto_world) = Inr (StateJson 1700000000003 0 [])"
    by (simp add: quotes_state_def checkToken_def default_config_def stream_request_def
        parseSymbolsParam_def js_or_def trim_def collect_def obj_set_def q k Date_now_def
        example_platform_def)
  show ?thesis
    by (simp add: p q r)
qed

end
